theory Spec2Isabelle
  imports Main
begin

section \<open>Python strings\<close>

text \<open>
  The connector \<^verbatim>\<open>zip.py\<close> works on Python \<^verbatim>\<open>str\<close> values. A string is modelled as a
  list of characters, each standing for one code point in the range 0..255.
\<close>

type_synonym path = string

text \<open>\<^verbatim>\<open>str.isspace\<close> on the code points 0..255.\<close>

definition isspace :: "char \<Rightarrow> bool" where
  "isspace c = (let n = (of_char c :: nat) in
     (9 \<le> n \<and> n \<le> 13) \<or> (28 \<le> n \<and> n \<le> 32) \<or> n = 133 \<or> n = 160)"

text \<open>\<^verbatim>\<open>s.strip()\<close>: leading and trailing whitespace removed.\<close>

definition strip :: "string \<Rightarrow> string" where
  "strip s = rev (dropWhile isspace (rev (dropWhile isspace s)))"

text \<open>\<^verbatim>\<open>s.split(sep)\<close> for a one-character separator; the result is never empty.\<close>

fun split :: "string \<Rightarrow> char \<Rightarrow> string list" where
  "split [] sep = [[]]"
| "split (c # cs) sep =
     (if c = sep then [] # split cs sep
      else (case split cs sep of [] \<Rightarrow> [[c]] | w # ws \<Rightarrow> (c # w) # ws))"

text \<open>
  \<^verbatim>\<open>str.replace(s, old, new)\<close>: every non-overlapping occurrence of \<open>old\<close>, found from
  left to right, is replaced; an empty \<open>old\<close> matches before every character and at
  the end.
\<close>

function replace :: "string \<Rightarrow> string \<Rightarrow> string \<Rightarrow> string" where
  "replace [] old new = (if old = [] then new else [])"
| "replace (c # cs) old new =
     (if old = [] then new @ c # replace cs old new
      else if take (length old) (c # cs) = old
        then new @ replace (drop (length old) (c # cs)) old new
      else c # replace cs old new)"
  by pat_completeness auto
termination
  by (relation "measure (\<lambda>(s, old, new). length s)") (auto simp: neq_Nil_conv)

text \<open>\<^verbatim>\<open>str(n)\<close> for an integer: decimal digits, no padding, a sign for negatives.\<close>

definition digit_char :: "nat \<Rightarrow> char" where
  "digit_char d = ''0123456789'' ! d"

fun digits :: "nat \<Rightarrow> string" where
  "digits n = (if n < 10 then [digit_char n] else digits (n div 10) @ [digit_char (n mod 10)])"

declare digits.simps [simp del]

definition str_int :: "int \<Rightarrow> string" where
  "str_int i = (if i < 0 then CHR ''-'' # digits (nat (- i)) else digits (nat i))"

text \<open>Two lower-case hexadecimal digits, as \<^verbatim>\<open>'%02x'\<close> prints a code point below 256.\<close>

definition hex_char :: "nat \<Rightarrow> char" where
  "hex_char d = ''0123456789abcdef'' ! d"

definition hex2 :: "char \<Rightarrow> string" where
  "hex2 c = (let n = (of_char c :: nat) in [hex_char (n div 16), hex_char (n mod 16)])"

text \<open>
  \<^verbatim>\<open>repr(s)\<close>: single quotes unless the string holds a single quote and no double
  quote; the quote character, the backslash and every code point that is not
  printable are escaped.
\<close>

definition printable :: "char \<Rightarrow> bool" where
  "printable c = (let n = (of_char c :: nat) in
     (32 \<le> n \<and> n < 127) \<or> (161 \<le> n \<and> n \<noteq> 173))"

definition repr_char :: "char \<Rightarrow> char \<Rightarrow> string" where
  "repr_char q c =
     (if c = q \<or> c = CHR 0x5C then [CHR 0x5C, c]
      else if c = CHR 0x09 then [CHR 0x5C, CHR ''t'']
      else if c = CHR 0x0A then [CHR 0x5C, CHR ''n'']
      else if c = CHR 0x0D then [CHR 0x5C, CHR ''r'']
      else if printable c then [c]
      else [CHR 0x5C, CHR ''x''] @ hex2 c)"

definition repr :: "string \<Rightarrow> string" where
  "repr s =
     (let q = (if CHR 0x27 \<in> set s \<and> CHR 0x22 \<notin> set s then CHR 0x22 else CHR 0x27)
      in q # concat (map (repr_char q) s) @ [q])"

text \<open>\<^verbatim>\<open>sep.join(xs)\<close>.\<close>

fun str_join :: "string \<Rightarrow> string list \<Rightarrow> string" where
  "str_join sep [] = []"
| "str_join sep [x] = x"
| "str_join sep (x # y # ys) = x @ sep @ str_join sep (y # ys)"

section \<open>The JSON text of the listing\<close>

text \<open>
  \<^verbatim>\<open>json.dumps\<close> with its default settings, on the only shapes \<^verbatim>\<open>list\<close> hands to it:
  a list of dictionaries with the four keys in insertion order, string and integer
  values.
\<close>

definition json_char :: "char \<Rightarrow> string" where
  "json_char c =
     (if c = CHR 0x22 then [CHR 0x5C, CHR 0x22]
      else if c = CHR 0x5C then [CHR 0x5C, CHR 0x5C]
      else if c = CHR 0x0A then [CHR 0x5C, CHR ''n'']
      else if c = CHR 0x0D then [CHR 0x5C, CHR ''r'']
      else if c = CHR 0x09 then [CHR 0x5C, CHR ''t'']
      else if c = CHR 0x08 then [CHR 0x5C, CHR ''b'']
      else if c = CHR 0x0C then [CHR 0x5C, CHR ''f'']
      else if 32 \<le> (of_char c :: nat) \<and> (of_char c :: nat) < 127 then [c]
      else [CHR 0x5C, CHR ''u'', CHR ''0'', CHR ''0''] @ hex2 c)"

definition json_str :: "string \<Rightarrow> string" where
  "json_str s = CHR 0x22 # concat (map json_char s) @ [CHR 0x22]"

record info_dict =
  d_filename :: string
  d_filesize :: nat
  d_compress_size :: nat
  d_modified :: string

definition json_info :: "info_dict \<Rightarrow> string" where
  "json_info x =
     ''{'' @ json_str ''filename'' @ '': '' @ json_str (d_filename x) @ '', ''
       @ json_str ''filesize'' @ '': '' @ digits (d_filesize x) @ '', ''
       @ json_str ''compress_size'' @ '': '' @ digits (d_compress_size x) @ '', ''
       @ json_str ''modified'' @ '': '' @ json_str (d_modified x) @ ''}''"

definition json_dumps :: "info_dict list \<Rightarrow> string" where
  "json_dumps xs = ''['' @ str_join '', '' (map json_info xs) @ '']''"

section \<open>POSIX path functions\<close>

text \<open>\<^verbatim>\<open>os.path.join(a, b)\<close> and \<^verbatim>\<open>os.path.normpath(p)\<close> of \<^verbatim>\<open>posixpath\<close>.\<close>

definition os_path_join :: "path \<Rightarrow> path \<Rightarrow> path" where
  "os_path_join a b =
     (if take 1 b = ''/'' then b
      else if a = [] \<or> last a = CHR ''/'' then a @ b
      else a @ ''/'' @ b)"

fun norm_comps :: "nat \<Rightarrow> string list \<Rightarrow> string list \<Rightarrow> string list" where
  "norm_comps initial_slashes new_comps [] = new_comps"
| "norm_comps initial_slashes new_comps (part # comps) =
     (if part = [] \<or> part = ''.'' then norm_comps initial_slashes new_comps comps
      else if part \<noteq> ''..'' \<or> (initial_slashes = 0 \<and> new_comps = [])
                \<or> (new_comps \<noteq> [] \<and> last new_comps = ''..'')
        then norm_comps initial_slashes (new_comps @ [part]) comps
      else if new_comps \<noteq> [] then norm_comps initial_slashes (butlast new_comps) comps
      else norm_comps initial_slashes new_comps comps)"

definition normpath :: "path \<Rightarrow> path" where
  "normpath p =
     (if p = [] then ''.''
      else
        (let initial_slashes =
               (if take 1 p = ''/'' then
                  (if take 2 p = ''//'' \<and> take 3 p \<noteq> ''///'' then 2 else 1)
                else (0::nat));
             comps = norm_comps initial_slashes [] (split p CHR ''/'');
             q = replicate initial_slashes CHR ''/'' @ str_join ''/'' comps
         in if q = [] then ''.'' else q))"

section \<open>Exceptions\<close>

text \<open>
  An exception is kept as its class, its \<^verbatim>\<open>strerror\<close> attribute (\<open>None\<close> unless the
  operating system raised it) and the text \<^verbatim>\<open>str\<close> gives for it.
\<close>

datatype exc_class =
  FileNotFoundError | FileExistsError | IsADirectoryError | NotADirectoryError | OSError
  | BadZipFile | KeyError | IndexError | ValueError | StructError | AttributeError

datatype exn = Exn (exc_class: exc_class) (strerror: "string option") (str_exn: string)

text \<open>An \<^verbatim>\<open>OSError\<close> raised by the operating system for a file name.\<close>

definition os_error :: "exc_class \<Rightarrow> nat \<Rightarrow> string \<Rightarrow> path \<Rightarrow> exn" where
  "os_error cls errno msg filename =
     Exn cls (Some msg) (''[Errno '' @ digits errno @ ''] '' @ msg @ '': '' @ repr filename)"

definition ENOENT :: "path \<Rightarrow> exn" where
  "ENOENT filename = os_error FileNotFoundError 2 ''No such file or directory'' filename"

definition EEXIST :: "path \<Rightarrow> exn" where
  "EEXIST filename = os_error FileExistsError 17 ''File exists'' filename"

definition EISDIR :: "path \<Rightarrow> exn" where
  "EISDIR filename = os_error IsADirectoryError 21 ''Is a directory'' filename"

definition ENOTDIR :: "path \<Rightarrow> exn" where
  "ENOTDIR filename = os_error NotADirectoryError 20 ''Not a directory'' filename"

definition ENAMETOOLONG :: "path \<Rightarrow> exn" where
  "ENAMETOOLONG filename = os_error OSError 36 ''File name too long'' filename"

text \<open>\<^verbatim>\<open>str(x)\<close> where \<open>x\<close> is a string or \<open>None\<close>.\<close>

definition str_opt :: "string option \<Rightarrow> string" where
  "str_opt x = (case x of None \<Rightarrow> ''None'' | Some s \<Rightarrow> s)"

section \<open>The values a caller can pass\<close>

text \<open>
  The functions of \<^verbatim>\<open>zip.py\<close> are documented for strings, and an integer for
  \<^verbatim>\<open>overwrite\<close>; Python lets a caller pass anything. \<^verbatim>\<open>filename.strip()\<close> and
  \<^verbatim>\<open>source.split(";")\<close> look the method up on the value they are given, and raise
  \<^verbatim>\<open>AttributeError\<close> when it is not a string.
\<close>

datatype pyval = PyStr string | PyInt int | PyNone

definition type_name :: "pyval \<Rightarrow> string" where
  "type_name v = (case v of PyStr s \<Rightarrow> ''str'' | PyInt i \<Rightarrow> ''int'' | PyNone \<Rightarrow> ''NoneType'')"

text \<open>The string a \<^verbatim>\<open>str\<close> method is called on, or the \<^verbatim>\<open>AttributeError\<close>.\<close>

definition str_method :: "pyval \<Rightarrow> string \<Rightarrow> exn + string" where
  "str_method v name =
     (case v of
        PyStr s \<Rightarrow> Inr s
      | _ \<Rightarrow> Inl (Exn AttributeError None
                   ([CHR 0x27] @ type_name v @ [CHR 0x27] @ '' object has no attribute ''
                      @ [CHR 0x27] @ name @ [CHR 0x27])))"

section \<open>Files, directories and archives\<close>

text \<open>
  The file system gives, for a path, the object the path names. A regular file has
  its content and its modification time (as local time, the six numbers
  \<^verbatim>\<open>time.localtime\<close> starts with); a directory has the tree of entries that
  \<^verbatim>\<open>os.scandir\<close> reports below it. Different path strings name different objects.

  The content of a file is seen at the level of the ZIP container, which the spec
  leaves to the archive library: either an archive with its members in central
  directory order, or any other bytes. A member carries the fields \<^verbatim>\<open>ZipInfo\<close>
  exposes, its stored data, and whether reading it fails its CRC or header check.

  What is left out: permissions, a full disk and other failures of the device; the
  directory that is to hold a new archive is taken to exist. An archive that is being
  written has no bytes until it is closed, and the entries of a directory are those
  it has when the call starts. Of the ways in which reading a member can fail, the
  failed CRC or header check is the one that is kept (\<open>m_bad\<close>); a deflate stream that
  cannot be read at all, encryption and unknown compression methods are left out.
\<close>

type_synonym date_time = "int \<times> int \<times> int \<times> int \<times> int \<times> int"

datatype content = Bytes string | Zip "member list"
and member =
  Member (m_filename: string) (m_file_size: nat) (m_compress_size: nat)
         (m_date_time: date_time) (m_data: content) (m_bad: bool)

datatype dent = FileEnt string | DirEnt string "dent list"

datatype node = File content date_time | Dir "dent list" date_time

type_synonym filesystem = "path \<Rightarrow> node option"

text \<open>
  What the program does not determine comes in as a parameter: the clock, the size
  the deflate codec gives to a content, the size of a ZIP container file, the
  library's extraction of one member below a destination path, which gives the new
  file system, together with the exception when it raises one, and what the target
  holds when an exception has ended the writing: the archive of the members written
  before it when the library can still close the archive, other bytes when closing
  fails as well.
\<close>

record env =
  clock :: date_time
  deflated_size :: "content \<Rightarrow> nat"
  container_size :: "member list \<Rightarrow> nat"
  extract_member :: "filesystem \<Rightarrow> member \<Rightarrow> path \<Rightarrow> exn \<times> filesystem + filesystem"
  aborted_content :: "member list \<Rightarrow> exn \<Rightarrow> content"

definition stat :: "filesystem \<Rightarrow> path \<Rightarrow> node option" where
  "stat fs p = (if p = [] then None else fs p)"

definition os_path_exists :: "filesystem \<Rightarrow> path \<Rightarrow> bool" where
  "os_path_exists fs p = (stat fs p \<noteq> None)"

definition os_path_isfile :: "filesystem \<Rightarrow> path \<Rightarrow> bool" where
  "os_path_isfile fs p = (case stat fs p of Some (File c t) \<Rightarrow> True | _ \<Rightarrow> False)"

text \<open>
  Why a path that names no object cannot be opened, as \<^verbatim>\<open>open\<close> and \<^verbatim>\<open>os.stat\<close> report it
  on a POSIX system: a NUL character in the path (found by Python itself), a path of
  more than 4095 bytes, and then, from the left, the first part of the path that has a
  name of more than 255 bytes, that does not exist, or that is a regular file with
  more of the path to follow. Names are counted in the bytes of their UTF-8 form.
\<close>

definition encoded_length :: "string \<Rightarrow> nat" where
  "encoded_length s = sum_list (map (\<lambda>c. if (of_char c :: nat) < 128 then 1 else 2) s)"

text \<open>The proper prefixes of a path that end with a name, shortest first.\<close>

definition dir_prefixes :: "path \<Rightarrow> path list" where
  "dir_prefixes p =
     map (\<lambda>i. take i p)
       (filter (\<lambda>i. p ! i = CHR ''/'' \<and> p ! (i - 1) \<noteq> CHR ''/'') [1..<length p])"

definition name_too_long :: "path \<Rightarrow> bool" where
  "name_too_long p = (255 < encoded_length (last (split p CHR ''/'')))"

fun prefix_error :: "filesystem \<Rightarrow> path \<Rightarrow> path list \<Rightarrow> exn" where
  "prefix_error fs p [] = (if name_too_long p then ENAMETOOLONG p else ENOENT p)"
| "prefix_error fs p (a # prefixes) =
     (if name_too_long a then ENAMETOOLONG p
      else (case fs a of
              None \<Rightarrow> ENOENT p
            | Some (File c t) \<Rightarrow> ENOTDIR p
            | Some (Dir es t) \<Rightarrow> prefix_error fs p prefixes))"

definition open_error :: "filesystem \<Rightarrow> path \<Rightarrow> exn" where
  "open_error fs p =
     (if p = [] then ENOENT p
      else if CHR 0x00 \<in> set p then Exn ValueError None ''embedded null byte''
      else if 4095 < encoded_length p then ENAMETOOLONG p
      else prefix_error fs p (dir_prefixes p))"

definition st_size :: "env \<Rightarrow> content \<Rightarrow> nat" where
  "st_size E c = (case c of Bytes b \<Rightarrow> length b | Zip ms \<Rightarrow> container_size E ms)"

text \<open>
  \<^verbatim>\<open>os.walk(top)\<close>, top down: one triple (dirpath, dirnames, filenames) for the
  directory and then the triples of its subdirectories in order; nothing when \<open>top\<close>
  is not a directory.
\<close>

fun dirnames_of :: "dent list \<Rightarrow> string list" where
  "dirnames_of [] = []"
| "dirnames_of (FileEnt n # es) = dirnames_of es"
| "dirnames_of (DirEnt n sub # es) = n # dirnames_of es"

fun filenames_of :: "dent list \<Rightarrow> string list" where
  "filenames_of [] = []"
| "filenames_of (FileEnt n # es) = n # filenames_of es"
| "filenames_of (DirEnt n sub # es) = filenames_of es"

fun walk_dir :: "path \<Rightarrow> dent list \<Rightarrow> (path \<times> string list \<times> string list) list"
and walk_subdirs :: "path \<Rightarrow> dent list \<Rightarrow> (path \<times> string list \<times> string list) list" where
  "walk_dir dirpath es = (dirpath, dirnames_of es, filenames_of es) # walk_subdirs dirpath es"
| "walk_subdirs dirpath [] = []"
| "walk_subdirs dirpath (FileEnt n # es) = walk_subdirs dirpath es"
| "walk_subdirs dirpath (DirEnt n sub # es) = walk_dir (os_path_join dirpath n) sub @ walk_subdirs dirpath es"

definition os_walk :: "filesystem \<Rightarrow> path \<Rightarrow> (path \<times> string list \<times> string list) list" where
  "os_walk fs item = (case stat fs item of Some (Dir es t) \<Rightarrow> walk_dir item es | _ \<Rightarrow> [])"

section \<open>The archive library\<close>

text \<open>
  \<^verbatim>\<open>ZipFile(filename)\<close>, mode \<open>r\<close>: the members of the archive, or the exception the
  constructor raises.
\<close>

definition ZipFile_read :: "filesystem \<Rightarrow> path \<Rightarrow> exn + member list" where
  "ZipFile_read fs filename =
     (case stat fs filename of
        None \<Rightarrow> Inl (open_error fs filename)
      | Some (Dir es t) \<Rightarrow> Inl (EISDIR filename)
      | Some (File (Bytes b) t) \<Rightarrow> Inl (Exn BadZipFile None ''File is not a zip file'')
      | Some (File (Zip ms) t) \<Rightarrow> Inr ms)"

text \<open>
  \<^verbatim>\<open>ZipFile(filename, mode, ZIP_DEFLATED)\<close> for the modes \<open>x\<close> and \<open>w\<close>: the file is
  created, or truncated to no bytes, at once; \<open>x\<close> refuses a name that exists. The
  directory that is to hold a new file is taken to exist.
\<close>

definition ZipFile_write :: "env \<Rightarrow> filesystem \<Rightarrow> path \<Rightarrow> string \<Rightarrow> exn + filesystem" where
  "ZipFile_write E fs filename mode =
     (case stat fs filename of
        None \<Rightarrow>
          if filename = [] then Inl (ENOENT filename)
          else Inr (fs(filename \<mapsto> File (Bytes []) (clock E)))
      | Some (Dir es t) \<Rightarrow> if mode = ''x'' then Inl (EEXIST filename) else Inl (EISDIR filename)
      | Some (File c t) \<Rightarrow>
          if mode = ''x'' then Inl (EEXIST filename)
          else Inr (fs(filename \<mapsto> File (Bytes []) (clock E))))"

text \<open>Closing a written archive stores the members written so far.\<close>

definition ZipFile_close :: "env \<Rightarrow> filesystem \<Rightarrow> path \<Rightarrow> member list \<Rightarrow> filesystem" where
  "ZipFile_close E fs filename ms = fs(filename \<mapsto> File (Zip ms) (clock E))"

text \<open>
  Leaving the \<^verbatim>\<open>with\<close> block by an exception closes the archive too. A directory
  entry whose header could not be written stays in the list of the library and makes
  this closing fail, and the target is then no archive.
\<close>

definition ZipFile_abort :: "env \<Rightarrow> filesystem \<Rightarrow> path \<Rightarrow> member list \<Rightarrow> exn \<Rightarrow> filesystem" where
  "ZipFile_abort E fs filename ms err = fs(filename \<mapsto> File (aborted_content E ms err) (clock E))"

text \<open>
  The archive name \<^verbatim>\<open>ZipInfo.from_file\<close> makes of \<open>arcname\<close>: \<^verbatim>\<open>normpath\<close>, then
  leading separators dropped one by one, where indexing the string that has become
  empty raises \<^verbatim>\<open>IndexError\<close>.
\<close>

fun strip_seps :: "string \<Rightarrow> exn + string" where
  "strip_seps [] = Inl (Exn IndexError None ''string index out of range'')"
| "strip_seps (c # cs) = (if c = CHR ''/'' then strip_seps cs else Inr (c # cs))"

definition zip_arcname :: "string \<Rightarrow> exn + string" where
  "zip_arcname arcname = strip_seps (normpath arcname)"

text \<open>
  The ZIP format keeps a time as a DOS date and time: years 1980 to 2107, seconds in
  steps of two.
\<close>

definition dos_time :: "date_time \<Rightarrow> exn + date_time" where
  "dos_time t =
     (case t of (y, mo, d, h, mi, s) \<Rightarrow>
        if y < 1980 then Inl (Exn ValueError None ''ZIP does not support timestamps before 1980'')
        else if 2107 < y then
          Inl (Exn StructError None ''ushort format requires 0 <= number <= 65535'')
        else Inr (y, mo, d, h, mi, 2 * (s div 2)))"

text \<open>
  \<^verbatim>\<open>myzip.write(filename, arcname)\<close>: the member that is appended, or the exception.
  A directory becomes an entry without data whose name ends with a separator.
\<close>

definition zip_write :: "env \<Rightarrow> filesystem \<Rightarrow> path \<Rightarrow> string \<Rightarrow> exn + member" where
  "zip_write E fs filename arcname =
     (case stat fs filename of
        None \<Rightarrow> Inl (open_error fs filename)
      | Some (File c t) \<Rightarrow>
          (case zip_arcname arcname of
             Inl e \<Rightarrow> Inl e
           | Inr name \<Rightarrow>
               (case dos_time t of
                  Inl e \<Rightarrow> Inl e
                | Inr dt \<Rightarrow> Inr (Member name (st_size E c) (deflated_size E c) dt c False)))
      | Some (Dir es t) \<Rightarrow>
          (case zip_arcname arcname of
             Inl e \<Rightarrow> Inl e
           | Inr name \<Rightarrow>
               (case dos_time t of
                  Inl e \<Rightarrow> Inl e
                | Inr dt \<Rightarrow> Inr (Member (name @ ''/'') 0 0 dt (Bytes []) False))))"

text \<open>
  \<^verbatim>\<open>myzip.getinfo(name)\<close>: the library keeps one entry per name, the last one of the
  central directory.
\<close>

definition getinfo :: "member list \<Rightarrow> string \<Rightarrow> exn + member" where
  "getinfo ms name =
     (case find (\<lambda>m. m_filename m = name) (rev ms) of
        None \<Rightarrow> Inl (Exn KeyError None
                    (repr (''There is no item named '' @ repr name @ '' in the archive'')))
      | Some m \<Rightarrow> Inr m)"

text \<open>
  \<^verbatim>\<open>myzip.testzip()\<close>: the members are read in order, each one opened by its name;
  the name of the first one whose read fails the check, or \<open>None\<close>.
\<close>

definition reads_bad :: "member list \<Rightarrow> member \<Rightarrow> bool" where
  "reads_bad ms z = (case getinfo ms (m_filename z) of Inl e \<Rightarrow> False | Inr m \<Rightarrow> m_bad m)"

definition testzip :: "member list \<Rightarrow> string option" where
  "testzip ms = map_option m_filename (find (reads_bad ms) ms)"

text \<open>\<^verbatim>\<open>myzip.extract(member, path)\<close> and \<^verbatim>\<open>myzip.extractall(path)\<close>.\<close>

definition zip_extract :: "env \<Rightarrow> filesystem \<Rightarrow> member list \<Rightarrow> string \<Rightarrow> path \<Rightarrow> exn \<times> filesystem + filesystem" where
  "zip_extract E fs ms name path =
     (case getinfo ms name of Inl e \<Rightarrow> Inl (e, fs) | Inr m \<Rightarrow> extract_member E fs m path)"

fun zip_extract_names :: "env \<Rightarrow> filesystem \<Rightarrow> member list \<Rightarrow> string list \<Rightarrow> path \<Rightarrow> exn \<times> filesystem + filesystem" where
  "zip_extract_names E fs ms [] path = Inr fs"
| "zip_extract_names E fs ms (name # names) path =
     (case zip_extract E fs ms name path of
        Inl (e, fs') \<Rightarrow> Inl (e, fs')
      | Inr fs' \<Rightarrow> zip_extract_names E fs' ms names path)"

definition zip_extractall :: "env \<Rightarrow> filesystem \<Rightarrow> member list \<Rightarrow> path \<Rightarrow> exn \<times> filesystem + filesystem" where
  "zip_extractall E fs ms path = zip_extract_names E fs ms (map m_filename ms) path"

section \<open>The connector\<close>

text \<open>
  Every operation of \<^verbatim>\<open>zip.py\<close> returns a dictionary with the keys \<^verbatim>\<open>status\<close> and
  \<^verbatim>\<open>message\<close>; \<^verbatim>\<open>list\<close> adds \<^verbatim>\<open>zipinfo\<close>. An operation that can change the file
  system returns the new file system beside it.
\<close>

record response =
  status :: string
  message :: string

record list_response = response +
  zipinfo :: string

text \<open>
  The handlers that \<^verbatim>\<open>list\<close>, \<^verbatim>\<open>extract\<close>, \<^verbatim>\<open>extractall\<close> and \<^verbatim>\<open>test\<close> share:
  \<^verbatim>\<open>except FileNotFoundError as err\<close>, then the bare \<^verbatim>\<open>except\<close>.
\<close>

definition except_read :: "exn \<Rightarrow> string \<Rightarrow> response" where
  "except_read err filename =
     (if exc_class err = FileNotFoundError
      then \<lparr>status = ''error'', message = str_opt (strerror err) @ '' '' @ filename\<rparr>
      else \<lparr>status = ''error'', message = str_exn err\<rparr>)"

subsection \<open>\<^verbatim>\<open>_formateDateTime\<close> and \<^verbatim>\<open>list\<close>\<close>

definition formateDateTime :: "date_time \<Rightarrow> string" where
  "formateDateTime dt =
     (case dt of (dt0, dt1, dt2, dt3, dt4, dt5) \<Rightarrow>
        str_int dt0 @ ''-'' @ str_int dt1 @ ''-'' @ str_int dt2 @ '' ''
          @ str_int dt3 @ '':'' @ str_int dt4 @ '':'' @ str_int dt5)"

text \<open>The loop \<^verbatim>\<open>for info in infolist\<close>, appending one dictionary per member.\<close>

fun list_loop :: "member list \<Rightarrow> info_dict list \<Rightarrow> info_dict list" where
  "list_loop [] infoarray = infoarray"
| "list_loop (info # infolist) infoarray =
     list_loop infolist
       (infoarray @ [\<lparr>d_filename = m_filename info, d_filesize = m_file_size info,
                      d_compress_size = m_compress_size info,
                      d_modified = formateDateTime (m_date_time info)\<rparr>])"

text \<open>The \<^verbatim>\<open>try\<close> block of \<^verbatim>\<open>list\<close>: the array it has built, or the exception.\<close>

definition list_try :: "filesystem \<Rightarrow> string \<Rightarrow> exn + info_dict list" where
  "list_try fs filename =
     (case ZipFile_read fs filename of
        Inl err \<Rightarrow> Inl err
      | Inr infolist \<Rightarrow> Inr (list_loop infolist []))"

definition list :: "filesystem \<Rightarrow> string \<Rightarrow> list_response" where
  "list fs filename0 =
     (let filename = strip filename0 in
      case list_try fs filename of
        Inr infoarray \<Rightarrow>
          \<lparr>status = ''ok'', message = filename, zipinfo = json_dumps infoarray\<rparr>
      | Inl err \<Rightarrow>
          (let r = except_read err filename in
           \<lparr>status = status r, message = message r, zipinfo = json_dumps []\<rparr>))"

subsection \<open>\<^verbatim>\<open>create\<close>\<close>

text \<open>The first loop: every source path must exist.\<close>

fun create_check :: "filesystem \<Rightarrow> string list \<Rightarrow> exn + unit" where
  "create_check fs [] = Inr ()"
| "create_check fs (item0 # list_source) =
     (let item = strip item0 in
      if \<not> os_path_exists fs item then Inl (Exn FileNotFoundError None item)
      else create_check fs list_source)"

text \<open>
  The loops inside \<^verbatim>\<open>with ZipFile(...) as myzip\<close> work on the members written so far
  and on \<^verbatim>\<open>filecnt\<close>. A loop gives both back, with the exception that stopped it if
  one was raised.
\<close>

type_synonym zstate = "member list \<times> nat"

text \<open>\<^verbatim>\<open>for name in filenames\<close>: every file is written and counted.\<close>

fun write_filenames :: "env \<Rightarrow> filesystem \<Rightarrow> string \<Rightarrow> path \<Rightarrow> string list \<Rightarrow> zstate \<Rightarrow> exn option \<times> zstate" where
  "write_filenames E fs root dirpath [] z = (None, z)"
| "write_filenames E fs root dirpath (name # filenames) (ms, filecnt) =
     (let filePath = os_path_join dirpath name;
          archivepath = replace filePath root []
      in case zip_write E fs filePath archivepath of
           Inl err \<Rightarrow> (Some err, (ms, filecnt))
         | Inr m \<Rightarrow> write_filenames E fs root dirpath filenames (ms @ [m], filecnt + 1))"

text \<open>\<^verbatim>\<open>for name in dirnames\<close>: every subdirectory is written, \<^verbatim>\<open>filecnt\<close> stays.\<close>

fun write_dirnames :: "env \<Rightarrow> filesystem \<Rightarrow> string \<Rightarrow> path \<Rightarrow> string list \<Rightarrow> zstate \<Rightarrow> exn option \<times> zstate" where
  "write_dirnames E fs root dirpath [] z = (None, z)"
| "write_dirnames E fs root dirpath (name # dirnames) (ms, filecnt) =
     (let filePath = os_path_join dirpath name;
          archivepath = replace filePath root []
      in case zip_write E fs filePath archivepath of
           Inl err \<Rightarrow> (Some err, (ms, filecnt))
         | Inr m \<Rightarrow> write_dirnames E fs root dirpath dirnames (ms @ [m], filecnt))"

text \<open>\<^verbatim>\<open>for dirpath, dirnames, filenames in os.walk(item)\<close>.\<close>

fun write_walk :: "env \<Rightarrow> filesystem \<Rightarrow> string \<Rightarrow> (path \<times> string list \<times> string list) list \<Rightarrow> zstate \<Rightarrow> exn option \<times> zstate" where
  "write_walk E fs root [] z = (None, z)"
| "write_walk E fs root ((dirpath, dirnames, filenames) # walk) z =
     (case write_filenames E fs root dirpath filenames z of
        (Some err, z1) \<Rightarrow> (Some err, z1)
      | (None, z1) \<Rightarrow>
          (case write_dirnames E fs root dirpath dirnames z1 of
             (Some err, z2) \<Rightarrow> (Some err, z2)
           | (None, z2) \<Rightarrow> write_walk E fs root walk z2))"

text \<open>\<^verbatim>\<open>for item in list_source\<close>, the second loop.\<close>

fun write_items :: "env \<Rightarrow> filesystem \<Rightarrow> string \<Rightarrow> string list \<Rightarrow> zstate \<Rightarrow> exn option \<times> zstate" where
  "write_items E fs root [] z = (None, z)"
| "write_items E fs root (item0 # list_source) (ms, filecnt) =
     (let item = strip item0 in
      if os_path_isfile fs item then
        (let archivepath = replace item root []
         in case zip_write E fs item archivepath of
              Inl err \<Rightarrow> (Some err, (ms, filecnt))
            | Inr m \<Rightarrow> write_items E fs root list_source (ms @ [m], filecnt + 1))
      else
        (case write_walk E fs root (os_walk fs item) (ms, filecnt) of
           (Some err, z1) \<Rightarrow> (Some err, z1)
         | (None, z1) \<Rightarrow> write_items E fs root list_source z1))"

text \<open>The three handlers of \<^verbatim>\<open>create\<close>.\<close>

definition except_create :: "exn \<Rightarrow> response" where
  "except_create err =
     (if exc_class err = FileExistsError
      then \<lparr>status = ''error'', message = str_exn err\<rparr>
      else if exc_class err = FileNotFoundError
      then \<lparr>status = ''error'', message = ''File not found: '' @ str_exn err\<rparr>
      else \<lparr>status = ''error'', message = str_exn err\<rparr>)"

definition open_mode :: "int \<Rightarrow> string" where
  "open_mode overwrite = (if overwrite = 0 then ''x'' else ''w'')"

definition create :: "env \<Rightarrow> filesystem \<Rightarrow> string \<Rightarrow> string \<Rightarrow> string \<Rightarrow> int \<Rightarrow> response \<times> filesystem" where
  "create E fs filename0 source root overwrite =
     (let filename = strip filename0;
          mode = open_mode overwrite;
          list_source = split source CHR '';''
      in case create_check fs list_source of
           Inl err \<Rightarrow> (except_create err, fs)
         | Inr u \<Rightarrow>
             (case ZipFile_write E fs filename mode of
                Inl err \<Rightarrow> (except_create err, fs)
              | Inr fs1 \<Rightarrow>
                  (case write_items E fs1 root list_source ([], 0) of
                     (Some err, (ms, filecnt)) \<Rightarrow>
                       (except_create err, ZipFile_abort E fs1 filename ms err)
                   | (None, (ms, filecnt)) \<Rightarrow>
                       (\<lparr>status = ''ok'',
                         message = digits filecnt @ '' files written to archive '' @ filename\<rparr>,
                        ZipFile_close E fs1 filename ms))))"


subsection \<open>\<^verbatim>\<open>extract\<close>, \<^verbatim>\<open>extractall\<close> and \<^verbatim>\<open>test\<close>\<close>

text \<open>\<^verbatim>\<open>extract\<close> of \<^verbatim>\<open>zip.py\<close>; the name \<open>extract\<close> is taken in Isabelle.\<close>

definition extract_op :: "env \<Rightarrow> filesystem \<Rightarrow> string \<Rightarrow> string \<Rightarrow> string \<Rightarrow> response \<times> filesystem" where
  "extract_op E fs filename0 member path =
     (let filename = strip filename0 in
      case ZipFile_read fs filename of
        Inl err \<Rightarrow> (except_read err filename, fs)
      | Inr ms \<Rightarrow>
          (case zip_extract E fs ms member path of
             Inl (err, fs') \<Rightarrow> (except_read err filename, fs')
           | Inr fs' \<Rightarrow>
               (\<lparr>status = ''ok'', message = ''Extracted '' @ member @ '' to '' @ path\<rparr>, fs')))"

definition extractall :: "env \<Rightarrow> filesystem \<Rightarrow> string \<Rightarrow> string \<Rightarrow> response \<times> filesystem" where
  "extractall E fs filename0 path =
     (let filename = strip filename0 in
      case ZipFile_read fs filename of
        Inl err \<Rightarrow> (except_read err filename, fs)
      | Inr ms \<Rightarrow>
          (case zip_extractall E fs ms path of
             Inl (err, fs') \<Rightarrow> (except_read err filename, fs')
           | Inr fs' \<Rightarrow>
               (\<lparr>status = ''ok'', message = ''Extracted '' @ filename @ '' to '' @ path\<rparr>, fs')))"

text \<open>\<^verbatim>\<open>if (badfile)\<close>: the truth value Python gives to a string or \<open>None\<close>.\<close>

definition truthy :: "string option \<Rightarrow> bool" where
  "truthy x = (case x of None \<Rightarrow> False | Some s \<Rightarrow> s \<noteq> [])"

definition test :: "filesystem \<Rightarrow> string \<Rightarrow> response" where
  "test fs filename0 =
     (let filename = strip filename0 in
      case ZipFile_read fs filename of
        Inl err \<Rightarrow> except_read err filename
      | Inr ms \<Rightarrow>
          (let badfile = testzip ms in
           if truthy badfile then \<lparr>status = ''error'', message = str_opt badfile\<rparr>
           else \<lparr>status = ''ok'', message = ''Test passed for '' @ filename\<rparr>))"

subsection \<open>The calls as a caller makes them\<close>

text \<open>
  A call either returns the dictionary or raises to the caller. \<open>try_except\<close> is the
  \<^verbatim>\<open>try\<close> statement: the body has returned, or it has raised an exception (each with
  the file system it leaves); the first \<^verbatim>\<open>except\<close> clause that matches the exception
  handles it, and an exception that no clause matches goes on to the caller. A clause
  is the test of the exception and what the handler sets; the bare \<^verbatim>\<open>except:\<close> matches
  every exception.
\<close>

fun try_except :: "exn \<times> 's + 'a \<times> 's \<Rightarrow> ((exn \<Rightarrow> bool) \<times> (exn \<Rightarrow> 'a)) list \<Rightarrow> exn \<times> 's + 'a \<times> 's" where
  "try_except (Inr v) clauses = Inr v"
| "try_except (Inl (err, s)) [] = Inl (err, s)"
| "try_except (Inl (err, s)) ((matches, handler) # clauses) =
     (if matches err then Inr (handler err, s) else try_except (Inl (err, s)) clauses)"

definition except_class :: "exc_class \<Rightarrow> exn \<Rightarrow> bool" where
  "except_class cls err = (exc_class err = cls)"

definition except_bare :: "exn \<Rightarrow> bool" where
  "except_bare err = True"

text \<open>
  The statements that stand before the \<^verbatim>\<open>try\<close> block, \<^verbatim>\<open>filename.strip()\<close> in all five
  functions and \<^verbatim>\<open>source.split(";")\<close> in \<^verbatim>\<open>create\<close>, raise to the caller. The other
  arguments are only used inside the \<^verbatim>\<open>try\<close> block.
\<close>

definition list_call :: "filesystem \<Rightarrow> pyval \<Rightarrow> exn \<times> filesystem + list_response \<times> filesystem" where
  "list_call fs filename0 =
     (case str_method filename0 ''strip'' of
        Inl err \<Rightarrow> Inl (err, fs)
      | Inr s \<Rightarrow>
          (let filename = strip s in
           case try_except
                  (case list_try fs filename of
                     Inl err \<Rightarrow> Inl (err, fs)
                   | Inr infoarray \<Rightarrow> Inr ((''ok'', filename, infoarray), fs))
                  [(except_class FileNotFoundError,
                      \<lambda>err. (''error'', str_opt (strerror err) @ '' '' @ filename, [])),
                   (except_bare, \<lambda>err. (''error'', str_exn err, []))] of
             Inl (err, fs') \<Rightarrow> Inl (err, fs')
           | Inr ((st, msg, infoarray), fs') \<Rightarrow>
               Inr (\<lparr>status = st, message = msg, zipinfo = json_dumps infoarray\<rparr>, fs')))"

definition create_call :: "env \<Rightarrow> filesystem \<Rightarrow> pyval \<Rightarrow> pyval \<Rightarrow> string \<Rightarrow> int \<Rightarrow> exn \<times> filesystem + response \<times> filesystem" where
  "create_call E fs filename0 source root overwrite =
     (case str_method filename0 ''strip'' of
        Inl err \<Rightarrow> Inl (err, fs)
      | Inr s \<Rightarrow>
          (let filename = strip s;
               mode = open_mode overwrite
           in case str_method source ''split'' of
                Inl err \<Rightarrow> Inl (err, fs)
              | Inr src \<Rightarrow>
                  (let list_source = split src CHR '';'' in
                   try_except
                     (case create_check fs list_source of
                        Inl err \<Rightarrow> Inl (err, fs)
                      | Inr u \<Rightarrow>
                          (case ZipFile_write E fs filename mode of
                             Inl err \<Rightarrow> Inl (err, fs)
                           | Inr fs1 \<Rightarrow>
                               (case write_items E fs1 root list_source ([], 0) of
                                  (Some err, (ms, filecnt)) \<Rightarrow>
                                    Inl (err, ZipFile_abort E fs1 filename ms err)
                                | (None, (ms, filecnt)) \<Rightarrow>
                                    Inr (\<lparr>status = ''ok'',
                                          message = digits filecnt @ '' files written to archive ''
                                                      @ filename\<rparr>,
                                         ZipFile_close E fs1 filename ms))))
                     [(except_class FileExistsError,
                         \<lambda>err. \<lparr>status = ''error'', message = str_exn err\<rparr>),
                      (except_class FileNotFoundError,
                         \<lambda>err. \<lparr>status = ''error'', message = ''File not found: '' @ str_exn err\<rparr>),
                      (except_bare, \<lambda>err. \<lparr>status = ''error'', message = str_exn err\<rparr>)])))"

text \<open>The two clauses that \<^verbatim>\<open>extract\<close>, \<^verbatim>\<open>extractall\<close> and \<^verbatim>\<open>test\<close> have.\<close>

definition read_clauses :: "string \<Rightarrow> ((exn \<Rightarrow> bool) \<times> (exn \<Rightarrow> response)) list" where
  "read_clauses filename =
     [(except_class FileNotFoundError,
         \<lambda>err. \<lparr>status = ''error'', message = str_opt (strerror err) @ '' '' @ filename\<rparr>),
      (except_bare, \<lambda>err. \<lparr>status = ''error'', message = str_exn err\<rparr>)]"

definition extract_call :: "env \<Rightarrow> filesystem \<Rightarrow> pyval \<Rightarrow> string \<Rightarrow> string \<Rightarrow> exn \<times> filesystem + response \<times> filesystem" where
  "extract_call E fs filename0 member path =
     (case str_method filename0 ''strip'' of
        Inl err \<Rightarrow> Inl (err, fs)
      | Inr s \<Rightarrow>
          (let filename = strip s in
           try_except
             (case ZipFile_read fs filename of
                Inl err \<Rightarrow> Inl (err, fs)
              | Inr ms \<Rightarrow>
                  (case zip_extract E fs ms member path of
                     Inl (err, fs') \<Rightarrow> Inl (err, fs')
                   | Inr fs' \<Rightarrow>
                       Inr (\<lparr>status = ''ok'',
                             message = ''Extracted '' @ member @ '' to '' @ path\<rparr>, fs')))
             (read_clauses filename)))"

definition extractall_call :: "env \<Rightarrow> filesystem \<Rightarrow> pyval \<Rightarrow> string \<Rightarrow> exn \<times> filesystem + response \<times> filesystem" where
  "extractall_call E fs filename0 path =
     (case str_method filename0 ''strip'' of
        Inl err \<Rightarrow> Inl (err, fs)
      | Inr s \<Rightarrow>
          (let filename = strip s in
           try_except
             (case ZipFile_read fs filename of
                Inl err \<Rightarrow> Inl (err, fs)
              | Inr ms \<Rightarrow>
                  (case zip_extractall E fs ms path of
                     Inl (err, fs') \<Rightarrow> Inl (err, fs')
                   | Inr fs' \<Rightarrow>
                       Inr (\<lparr>status = ''ok'',
                             message = ''Extracted '' @ filename @ '' to '' @ path\<rparr>, fs')))
             (read_clauses filename)))"

definition test_call :: "filesystem \<Rightarrow> pyval \<Rightarrow> exn \<times> filesystem + response \<times> filesystem" where
  "test_call fs filename0 =
     (case str_method filename0 ''strip'' of
        Inl err \<Rightarrow> Inl (err, fs)
      | Inr s \<Rightarrow>
          (let filename = strip s in
           try_except
             (case ZipFile_read fs filename of
                Inl err \<Rightarrow> Inl (err, fs)
              | Inr ms \<Rightarrow>
                  (let badfile = testzip ms in
                   if truthy badfile
                   then Inr (\<lparr>status = ''error'', message = str_opt badfile\<rparr>, fs)
                   else Inr (\<lparr>status = ''ok'', message = ''Test passed for '' @ filename\<rparr>, fs)))
             (read_clauses filename)))"

section \<open>The calls of \<^verbatim>\<open>write\<close> that \<^verbatim>\<open>create\<close> makes\<close>

text \<open>
  The second loop of \<^verbatim>\<open>create\<close> calls \<^verbatim>\<open>myzip.write\<close> once for a source that is a
  regular file and, for any other source, once for every file name and once for every
  directory name that \<^verbatim>\<open>os.walk\<close> yields. \<open>all_writes\<close> lists the paths of these calls
  in the order of the source, each with \<open>True\<close> when the call is followed by
  \<^verbatim>\<open>filecnt+=1\<close>; \<open>run_writes\<close> makes the calls of such a list.
\<close>

fun walk_writes :: "(path \<times> string list \<times> string list) list \<Rightarrow> (path \<times> bool) list" where
  "walk_writes [] = []"
| "walk_writes ((dirpath, dirnames, filenames) # walk) =
     map (\<lambda>name. (os_path_join dirpath name, True)) filenames
     @ map (\<lambda>name. (os_path_join dirpath name, False)) dirnames
     @ walk_writes walk"

fun all_writes :: "filesystem \<Rightarrow> string list \<Rightarrow> (path \<times> bool) list" where
  "all_writes fs [] = []"
| "all_writes fs (item0 # list_source) =
     (let item = strip item0 in
      (if os_path_isfile fs item then [(item, True)] else walk_writes (os_walk fs item))
      @ all_writes fs list_source)"

fun run_writes :: "env \<Rightarrow> filesystem \<Rightarrow> string \<Rightarrow> (path \<times> bool) list \<Rightarrow> zstate \<Rightarrow> exn option \<times> zstate" where
  "run_writes E fs root [] z = (None, z)"
| "run_writes E fs root ((filePath, counted) # ws) (ms, filecnt) =
     (case zip_write E fs filePath (replace filePath root []) of
        Inl err \<Rightarrow> (Some err, (ms, filecnt))
      | Inr m \<Rightarrow> run_writes E fs root ws (ms @ [m], if counted then filecnt + 1 else filecnt))"



section \<open>A small file system for the examples\<close>

definition demo_env :: env where
  "demo_env =
     \<lparr>clock = (2024, 1, 5, 3, 4, 7), deflated_size = (\<lambda>c. 7), container_size = (\<lambda>ms. 100),
      extract_member = (\<lambda>fs m p. Inr fs), aborted_content = (\<lambda>ms err. Zip ms)\<rparr>"

definition demo_fs :: filesystem where
  "demo_fs =
     [''/data/a.txt'' \<mapsto> File (Bytes ''hello'') (2023, 12, 1, 10, 0, 9),
      ''/data/sub/b.txt'' \<mapsto> File (Bytes ''world!'') (2023, 12, 2, 10, 0, 9),
      ''/data/sub'' \<mapsto> Dir [FileEnt ''b.txt''] (2023, 12, 2, 10, 0, 9),
      ''/data'' \<mapsto> Dir [FileEnt ''a.txt'', DirEnt ''sub'' [FileEnt ''b.txt'']] (2023, 12, 2, 10, 0, 9),
      ''/old.zip'' \<mapsto> File (Zip [Member ''x.txt'' 1 3 (2020, 2, 2, 2, 2, 2) (Bytes ''x'') False])
                      (2020, 2, 2, 2, 2, 2),
      ''/d/x/d/a.txt'' \<mapsto> File (Bytes ''data'') (2023, 12, 1, 10, 0, 9),
      ''/bad.zip'' \<mapsto> File (Zip [Member [] 3 3 (2024, 1, 5, 3, 4, 6) (Bytes ''abc'') True,
                                  Member ''b.txt'' 3 3 (2024, 1, 5, 3, 4, 6) (Bytes ''xyz'') True])
                      (2024, 1, 5, 3, 4, 6)]"

section \<open>Properties of the string functions\<close>



section \<open>Properties of \<^verbatim>\<open>list\<close>\<close>

lemma list_loop_append:
  "list_loop infolist infoarray =
     infoarray @ map (\<lambda>info. \<lparr>d_filename = m_filename info, d_filesize = m_file_size info,
                        d_compress_size = m_compress_size info,
                        d_modified = formateDateTime (m_date_time info)\<rparr>) infolist"
  by (induction infolist arbitrary: infoarray) simp_all


section \<open>A missing archive\<close>

lemma ZipFile_read_missing:
  "\<not> os_path_exists fs filename \<Longrightarrow> ZipFile_read fs filename = Inl (open_error fs filename)"
  by (simp add: os_path_exists_def ZipFile_read_def)

lemma except_read_ENOENT:
  "except_read (ENOENT f) filename =
     \<lparr>status = ''error'', message = ''No such file or directory '' @ filename\<rparr>"
  by (simp add: except_read_def ENOENT_def os_error_def str_opt_def)

text \<open>
  When the operating system says \<^verbatim>\<open>No such file or directory\<close>: the path has no NUL
  character and no more than 4095 bytes, no name in it has more than 255 bytes, and no
  part of it with more of the path to follow is a regular file.
\<close>

lemma prefix_error_ENOENT:
  assumes "list_all (\<lambda>a. \<not> name_too_long a \<and> (\<forall>c t. fs a \<noteq> Some (File c t))) prefixes"
    and "\<not> name_too_long p"
  shows "prefix_error fs p prefixes = ENOENT p"
  using assms(1)
proof (induction prefixes)
  case Nil
  from assms(2) show ?case by simp
next
  case (Cons a prefixes)
  then show ?case by (auto split: option.splits node.splits)
qed

lemma open_error_ENOENT:
  assumes "CHR 0x00 \<notin> set p" and "encoded_length p \<le> 4095"
    and "list_all (\<lambda>a. \<not> name_too_long a \<and> (\<forall>c t. fs a \<noteq> Some (File c t))) (dir_prefixes p)"
    and "\<not> name_too_long p"
  shows "open_error fs p = ENOENT p"
  using assms(1,2) prefix_error_ENOENT [OF assms(3,4)] by (simp add: open_error_def)

text \<open>
  Claim C7, as amended. When no file has the (stripped) name of the archive and the
  operating system reports this as \<^verbatim>\<open>No such file or directory\<close>, the
  \<^verbatim>\<open>FileNotFoundError\<close>, then \<^verbatim>\<open>list\<close>, \<^verbatim>\<open>extract\<close>, \<^verbatim>\<open>extractall\<close> and \<^verbatim>\<open>test\<close> each
  return the status \<^verbatim>\<open>error\<close> and the message made of that reason (\<^verbatim>\<open>strerror\<close>), a
  space and the archive filename; nothing is changed.
\<close>

theorem archive_not_found_message:
  assumes "\<not> os_path_exists fs (strip filename)"
    and "open_error fs (strip filename) = ENOENT (strip filename)"
  shows "list fs filename =
           \<lparr>status = ''error'', message = ''No such file or directory'' @ '' '' @ strip filename,
            zipinfo = ''[]''\<rparr>
       \<and> extract_op E fs filename member path =
           (\<lparr>status = ''error'', message = ''No such file or directory'' @ '' '' @ strip filename\<rparr>, fs)
       \<and> extractall E fs filename path =
           (\<lparr>status = ''error'', message = ''No such file or directory'' @ '' '' @ strip filename\<rparr>, fs)
       \<and> test fs filename =
           \<lparr>status = ''error'', message = ''No such file or directory'' @ '' '' @ strip filename\<rparr>"
proof -
  have r: "ZipFile_read fs (strip filename) = Inl (ENOENT (strip filename))"
    using ZipFile_read_missing [OF assms(1)] by (simp only: assms(2))
  have "list fs filename =
           \<lparr>status = ''error'', message = ''No such file or directory'' @ '' '' @ strip filename,
            zipinfo = ''[]''\<rparr>"
    by (simp add: list_def list_try_def r except_read_ENOENT json_dumps_def)
  moreover have "extract_op E fs filename member path =
           (\<lparr>status = ''error'', message = ''No such file or directory'' @ '' '' @ strip filename\<rparr>, fs)"
    by (simp add: extract_op_def r except_read_ENOENT)
  moreover have "extractall E fs filename path =
           (\<lparr>status = ''error'', message = ''No such file or directory'' @ '' '' @ strip filename\<rparr>, fs)"
    by (simp add: extractall_def r except_read_ENOENT)
  moreover have "test fs filename =
           \<lparr>status = ''error'', message = ''No such file or directory'' @ '' '' @ strip filename\<rparr>"
    by (simp add: test_def r except_read_ENOENT)
  ultimately show ?thesis by simp
qed

theorem archive_not_found_message_witness:
  "\<not> os_path_exists demo_fs (strip '' /data/gone.zip '')
   \<and> open_error demo_fs (strip '' /data/gone.zip '') = ENOENT (strip '' /data/gone.zip '')
   \<and> list demo_fs '' /data/gone.zip '' =
      \<lparr>status = ''error'', message = ''No such file or directory /data/gone.zip'', zipinfo = ''[]''\<rparr>
   \<and> test demo_fs '' /data/gone.zip '' =
      \<lparr>status = ''error'', message = ''No such file or directory /data/gone.zip''\<rparr>
   \<and> fst (extract_op demo_env demo_fs '' /data/gone.zip '' ''a.txt'' ''/out'') =
      \<lparr>status = ''error'', message = ''No such file or directory /data/gone.zip''\<rparr>
   \<and> fst (extractall demo_env demo_fs '' /data/gone.zip '' ''/out'') =
      \<lparr>status = ''error'', message = ''No such file or directory /data/gone.zip''\<rparr>"
proof -
  have s: "strip '' /data/gone.zip '' = ''/data/gone.zip''"
    by code_simp
  have h1: "\<not> os_path_exists demo_fs (strip '' /data/gone.zip '')"
    by code_simp
  have h2: "open_error demo_fs (strip '' /data/gone.zip '') = ENOENT (strip '' /data/gone.zip '')"
    by code_simp
  from h1 h2 show ?thesis
    using archive_not_found_message [OF h1 h2, of demo_env "''a.txt''" "''/out''"] by (simp add: s)
qed

text \<open>
  Claim C7 as it is stated fails for an archive path below a regular file: no file has
  the name \<^verbatim>\<open>/data/a.txt/x.zip\<close>, but the operating system answers
  \<^verbatim>\<open>Not a directory\<close>, which is no \<^verbatim>\<open>FileNotFoundError\<close>; the bare \<^verbatim>\<open>except\<close> takes it
  and the message is the text of the exception, not a reason followed by the
  filename.
\<close>

theorem missing_archive_message_counterexample:
  "\<not> os_path_exists demo_fs (strip ''/data/a.txt/x.zip'')
   \<and> list demo_fs ''/data/a.txt/x.zip'' =
       \<lparr>status = ''error'',
         message = ''[Errno 20] Not a directory: '' @ [CHR 0x27] @ ''/data/a.txt/x.zip'' @ [CHR 0x27],
         zipinfo = ''[]''\<rparr>
   \<and> test demo_fs ''/data/a.txt/x.zip'' =
       \<lparr>status = ''error'',
         message = ''[Errno 20] Not a directory: '' @ [CHR 0x27] @ ''/data/a.txt/x.zip'' @ [CHR 0x27]\<rparr>
   \<and> fst (extract_op demo_env demo_fs ''/data/a.txt/x.zip'' ''a.txt'' ''/out'') =
       \<lparr>status = ''error'',
         message = ''[Errno 20] Not a directory: '' @ [CHR 0x27] @ ''/data/a.txt/x.zip'' @ [CHR 0x27]\<rparr>
   \<and> fst (extractall demo_env demo_fs ''/data/a.txt/x.zip'' ''/out'') =
       \<lparr>status = ''error'',
         message = ''[Errno 20] Not a directory: '' @ [CHR 0x27] @ ''/data/a.txt/x.zip'' @ [CHR 0x27]\<rparr>
   \<and> ''[Errno 20] Not a directory: '' @ [CHR 0x27] @ ''/data/a.txt/x.zip'' @ [CHR 0x27]
         \<noteq> ''Not a directory /data/a.txt/x.zip''
   \<and> ''[Errno 20] Not a directory: '' @ [CHR 0x27] @ ''/data/a.txt/x.zip'' @ [CHR 0x27]
         \<noteq> ''No such file or directory /data/a.txt/x.zip''"
  by code_simp

section \<open>The result of every operation\<close>

lemma status_except_read: "status (except_read err filename) = ''error''"
  by (simp add: except_read_def)

lemma status_except_create: "status (except_create err) = ''error''"
  by (simp add: except_create_def)

text \<open>On strings, the \<^verbatim>\<open>try\<close> statement of each function always ends in a result.\<close>

lemma list_call_on_str: "list_call fs (PyStr filename) = Inr (list fs filename, fs)"
  by (cases "list_try fs (strip filename)")
    (simp_all add: list_call_def list_def str_method_def except_class_def except_bare_def
      except_read_def Let_def)

lemma create_call_on_str:
  "create_call E fs (PyStr filename) (PyStr source) root overwrite =
     Inr (create E fs filename source root overwrite)"
  by (simp add: create_call_def create_def str_method_def except_class_def except_bare_def
      except_create_def Let_def split: sum.splits prod.splits option.splits)

lemma extract_call_on_str:
  "extract_call E fs (PyStr filename) member path = Inr (extract_op E fs filename member path)"
  by (simp add: extract_call_def extract_op_def str_method_def read_clauses_def
      except_class_def except_bare_def except_read_def Let_def split: sum.splits prod.splits)

lemma extractall_call_on_str:
  "extractall_call E fs (PyStr filename) path = Inr (extractall E fs filename path)"
  by (simp add: extractall_call_def extractall_def str_method_def read_clauses_def
      except_class_def except_bare_def except_read_def Let_def split: sum.splits prod.splits)

lemma test_call_on_str: "test_call fs (PyStr filename) = Inr (test fs filename, fs)"
  by (simp add: test_call_def test_def str_method_def read_clauses_def
      except_class_def except_bare_def except_read_def Let_def split: sum.splits)

text \<open>
  Claim C4, as amended. Called with strings (and an integer for \<^verbatim>\<open>overwrite\<close>), each of
  the five operations returns: the call does not raise, and what it returns has the
  status \<^verbatim>\<open>ok\<close> or \<^verbatim>\<open>error\<close>, with a message. Whenever opening the archive, an
  extraction, the check of the sources or a \<^verbatim>\<open>write\<close> raises inside the \<^verbatim>\<open>try\<close> block,
  the result is the one with the status \<^verbatim>\<open>error\<close>, and otherwise it is \<^verbatim>\<open>ok\<close>
  (\<^verbatim>\<open>test\<close> alone also answers \<^verbatim>\<open>error\<close> without an exception, for a bad member).
\<close>

theorem calls_return_result_on_strings:
  "list_call fs (PyStr filename) = Inr (list fs filename, fs)
   \<and> create_call E fs (PyStr filename) (PyStr source) root overwrite =
       Inr (create E fs filename source root overwrite)
   \<and> extract_call E fs (PyStr filename) member path = Inr (extract_op E fs filename member path)
   \<and> extractall_call E fs (PyStr filename) path = Inr (extractall E fs filename path)
   \<and> test_call fs (PyStr filename) = Inr (test fs filename, fs)
   \<and> status (list fs filename) \<in> {''ok'', ''error''}
   \<and> status (fst (create E fs filename source root overwrite)) \<in> {''ok'', ''error''}
   \<and> status (fst (extract_op E fs filename member path)) \<in> {''ok'', ''error''}
   \<and> status (fst (extractall E fs filename path)) \<in> {''ok'', ''error''}
   \<and> status (test fs filename) \<in> {''ok'', ''error''}
   \<and> (case ZipFile_read fs (strip filename) of
        Inl err \<Rightarrow>
          status (list fs filename) = ''error''
          \<and> status (fst (extract_op E fs filename member path)) = ''error''
          \<and> status (fst (extractall E fs filename path)) = ''error''
          \<and> status (test fs filename) = ''error''
      | Inr ms \<Rightarrow>
          status (list fs filename) = ''ok''
          \<and> (case zip_extract E fs ms member path of
               Inl err \<Rightarrow> status (fst (extract_op E fs filename member path)) = ''error''
             | Inr fs' \<Rightarrow> status (fst (extract_op E fs filename member path)) = ''ok'')
          \<and> (case zip_extractall E fs ms path of
               Inl err \<Rightarrow> status (fst (extractall E fs filename path)) = ''error''
             | Inr fs' \<Rightarrow> status (fst (extractall E fs filename path)) = ''ok''))
   \<and> (case create_check fs (split source CHR '';'') of
        Inl err \<Rightarrow> status (fst (create E fs filename source root overwrite)) = ''error''
      | Inr u \<Rightarrow>
          (case ZipFile_write E fs (strip filename) (open_mode overwrite) of
             Inl err \<Rightarrow> status (fst (create E fs filename source root overwrite)) = ''error''
           | Inr fs1 \<Rightarrow>
               (case fst (write_items E fs1 root (split source CHR '';'') ([], 0)) of
                  Some err \<Rightarrow> status (fst (create E fs filename source root overwrite)) = ''error''
                | None \<Rightarrow> status (fst (create E fs filename source root overwrite)) = ''ok'')))"
proof -
  have calls: "list_call fs (PyStr filename) = Inr (list fs filename, fs)
   \<and> create_call E fs (PyStr filename) (PyStr source) root overwrite =
       Inr (create E fs filename source root overwrite)
   \<and> extract_call E fs (PyStr filename) member path = Inr (extract_op E fs filename member path)
   \<and> extractall_call E fs (PyStr filename) path = Inr (extractall E fs filename path)
   \<and> test_call fs (PyStr filename) = Inr (test fs filename, fs)"
    by (simp add: list_call_on_str create_call_on_str extract_call_on_str
        extractall_call_on_str test_call_on_str)
  have l: "status (list fs filename) \<in> {''ok'', ''error''}"
    by (simp add: list_def Let_def status_except_read split: sum.splits)
  have c: "status (fst (create E fs filename source root overwrite)) \<in> {''ok'', ''error''}"
    by (simp add: create_def Let_def status_except_create split: sum.splits prod.splits option.splits)
  have x: "status (fst (extract_op E fs filename member path)) \<in> {''ok'', ''error''}"
    by (simp add: extract_op_def Let_def status_except_read split: sum.splits prod.splits)
  have xa: "status (fst (extractall E fs filename path)) \<in> {''ok'', ''error''}"
    by (simp add: extractall_def Let_def status_except_read split: sum.splits prod.splits)
  have t: "status (test fs filename) \<in> {''ok'', ''error''}"
    by (simp add: test_def Let_def status_except_read split: sum.splits)
  have rd: "(case ZipFile_read fs (strip filename) of
        Inl err \<Rightarrow>
          status (list fs filename) = ''error''
          \<and> status (fst (extract_op E fs filename member path)) = ''error''
          \<and> status (fst (extractall E fs filename path)) = ''error''
          \<and> status (test fs filename) = ''error''
      | Inr ms \<Rightarrow>
          status (list fs filename) = ''ok''
          \<and> (case zip_extract E fs ms member path of
               Inl err \<Rightarrow> status (fst (extract_op E fs filename member path)) = ''error''
             | Inr fs' \<Rightarrow> status (fst (extract_op E fs filename member path)) = ''ok'')
          \<and> (case zip_extractall E fs ms path of
               Inl err \<Rightarrow> status (fst (extractall E fs filename path)) = ''error''
             | Inr fs' \<Rightarrow> status (fst (extractall E fs filename path)) = ''ok''))"
    by (simp add: list_def list_try_def extract_op_def extractall_def test_def Let_def
        status_except_read split: sum.splits prod.splits)
  have cr: "(case create_check fs (split source CHR '';'') of
        Inl err \<Rightarrow> status (fst (create E fs filename source root overwrite)) = ''error''
      | Inr u \<Rightarrow>
          (case ZipFile_write E fs (strip filename) (open_mode overwrite) of
             Inl err \<Rightarrow> status (fst (create E fs filename source root overwrite)) = ''error''
           | Inr fs1 \<Rightarrow>
               (case fst (write_items E fs1 root (split source CHR '';'') ([], 0)) of
                  Some err \<Rightarrow> status (fst (create E fs filename source root overwrite)) = ''error''
                | None \<Rightarrow> status (fst (create E fs filename source root overwrite)) = ''ok'')))"
    by (simp add: create_def Let_def status_except_create split: sum.splits prod.splits option.splits)
  from calls l c x xa t rd cr show ?thesis by blast
qed

text \<open>
  Claim C4 as it is stated, for every input, fails: \<^verbatim>\<open>filename.strip()\<close> stands before
  the \<^verbatim>\<open>try\<close> block, and so does \<^verbatim>\<open>source.split(";")\<close> in \<^verbatim>\<open>create\<close>. Called with \<open>None\<close>
  for the filename, \<^verbatim>\<open>list\<close> raises \<^verbatim>\<open>AttributeError\<close> to its caller, and so does
  \<^verbatim>\<open>create\<close> with a number for the source.
\<close>

theorem calls_raise_counterexample:
  "list_call demo_fs PyNone =
     Inl (Exn AttributeError None
            ([CHR 0x27] @ ''NoneType'' @ [CHR 0x27] @ '' object has no attribute ''
               @ [CHR 0x27] @ ''strip'' @ [CHR 0x27]), demo_fs)
   \<and> create_call demo_env demo_fs (PyStr ''/out.zip'') (PyInt 5) ''/data'' 1 =
     Inl (Exn AttributeError None
            ([CHR 0x27] @ ''int'' @ [CHR 0x27] @ '' object has no attribute ''
               @ [CHR 0x27] @ ''split'' @ [CHR 0x27]), demo_fs)"
  by (simp add: list_call_def create_call_def str_method_def type_name_def)

section \<open>The loops of \<^verbatim>\<open>create\<close>\<close>

lemma create_check_find:
  "create_check fs list_source =
     (case find (\<lambda>item. \<not> os_path_exists fs (strip item)) list_source of
        None \<Rightarrow> Inr ()
      | Some item \<Rightarrow> Inl (Exn FileNotFoundError None (strip item)))"
  by (induction list_source) (simp_all add: Let_def)


lemma run_writes_append:
  "run_writes E fs root (ws1 @ ws2) z =
     (case run_writes E fs root ws1 z of
        (Some err, z1) \<Rightarrow> (Some err, z1)
      | (None, z1) \<Rightarrow> run_writes E fs root ws2 z1)"
proof (induction ws1 arbitrary: z)
  case Nil
  show ?case by simp
next
  case (Cons w ws1)
  obtain p counted where w: "w = (p, counted)" by (cases w)
  obtain ms filecnt where z: "z = (ms, filecnt)" by (cases z)
  show ?case by (simp add: w z Cons.IH split: sum.splits)
qed

lemma write_filenames_run:
  "write_filenames E fs root dirpath filenames z =
     run_writes E fs root (map (\<lambda>name. (os_path_join dirpath name, True)) filenames) z"
proof (induction filenames arbitrary: z)
  case Nil
  show ?case by simp
next
  case (Cons name filenames)
  obtain ms filecnt where z: "z = (ms, filecnt)" by (cases z)
  show ?case by (simp add: z Cons.IH Let_def split: sum.splits)
qed

lemma write_dirnames_run:
  "write_dirnames E fs root dirpath dirnames z =
     run_writes E fs root (map (\<lambda>name. (os_path_join dirpath name, False)) dirnames) z"
proof (induction dirnames arbitrary: z)
  case Nil
  show ?case by simp
next
  case (Cons name dirnames)
  obtain ms filecnt where z: "z = (ms, filecnt)" by (cases z)
  show ?case by (simp add: z Cons.IH Let_def split: sum.splits)
qed

lemma write_walk_run:
  "write_walk E fs root walk z = run_writes E fs root (walk_writes walk) z"
proof (induction walk arbitrary: z)
  case Nil
  show ?case by simp
next
  case (Cons t walk)
  obtain dirpath dirnames filenames where t: "t = (dirpath, dirnames, filenames)"
    by (cases t)
  show ?case
    by (simp add: t Cons.IH run_writes_append write_filenames_run write_dirnames_run
        split: prod.splits option.splits)
qed

lemma write_items_run:
  "write_items E fs root list_source z = run_writes E fs root (all_writes fs list_source) z"
proof (induction list_source arbitrary: z)
  case Nil
  show ?case by simp
next
  case (Cons item0 list_source)
  obtain ms filecnt where z: "z = (ms, filecnt)" by (cases z)
  show ?case
    by (simp add: z Cons.IH Let_def run_writes_append write_walk_run
        split: sum.splits prod.splits option.splits)
qed

lemma run_writes_None:
  "run_writes E fs root ws (ms0, c0) = (None, (ms, c)) \<Longrightarrow>
     \<exists>ms'. ms = ms0 @ ms'
       \<and> map (\<lambda>w. zip_write E fs (fst w) (replace (fst w) root [])) ws = map Inr ms'
       \<and> c = c0 + length (filter snd ws)"
proof (induction ws arbitrary: ms0 c0)
  case Nil
  then show ?case by simp
next
  case (Cons w ws)
  obtain p counted where w: "w = (p, counted)" by (cases w)
  from Cons.prems obtain m where
    m: "zip_write E fs p (replace p root []) = Inr m"
    and r: "run_writes E fs root ws (ms0 @ [m], if counted then c0 + 1 else c0) = (None, (ms, c))"
    by (auto simp: w split: sum.splits)
  from Cons.IH [OF r] obtain ms' where
    "ms = (ms0 @ [m]) @ ms'"
    "map (\<lambda>w. zip_write E fs (fst w) (replace (fst w) root [])) ws = map Inr ms'"
    "c = (if counted then c0 + 1 else c0) + length (filter snd ws)"
    by blast
  then have "ms = ms0 @ (m # ms')
      \<and> map (\<lambda>w. zip_write E fs (fst w) (replace (fst w) root [])) (w # ws) = map Inr (m # ms')
      \<and> c = c0 + length (filter snd (w # ws))"
    by (simp add: w m)
  then show ?case by blast
qed


text \<open>What \<^verbatim>\<open>create\<close> returns once the sources have been checked and the archive is open.\<close>

lemma create_opened:
  assumes "create_check fs (split source CHR '';'') = Inr ()"
    and "ZipFile_write E fs (strip filename) (open_mode overwrite) = Inr fs1"
    and "run_writes E fs1 root (all_writes fs1 (split source CHR '';'')) ([], 0) = (None, (ms, c))"
  shows "create E fs filename source root overwrite =
           (\<lparr>status = ''ok'',
             message = digits c @ '' files written to archive '' @ strip filename\<rparr>,
            ZipFile_close E fs1 (strip filename) ms)"
  using assms by (simp add: create_def Let_def write_items_run)

lemma create_ok_cases:
  assumes "status (fst (create E fs filename source root overwrite)) = ''ok''"
  shows "\<exists>fs1 ms c.
           create_check fs (split source CHR '';'') = Inr ()
         \<and> ZipFile_write E fs (strip filename) (open_mode overwrite) = Inr fs1
         \<and> run_writes E fs1 root (all_writes fs1 (split source CHR '';'')) ([], 0) = (None, (ms, c))"
  using assms
  by (auto simp: create_def Let_def write_items_run except_create_def
      split: sum.splits prod.splits option.splits if_splits)


text \<open>
  Claim C2. \<^verbatim>\<open>create\<close> checks every source path before it opens the archive. When a
  source path (stripped) does not exist, the call returns the status \<^verbatim>\<open>error\<close> with
  the message \<^verbatim>\<open>File not found: \<close> followed by the first path of the source that is
  missing, which is that path when no other one is missing, and the file system is
  as it was: no archive is created or changed, whatever \<^verbatim>\<open>overwrite\<close> is.
\<close>

theorem create_missing_source_atomic:
  assumes "item \<in> set (split source CHR '';'')"
    and "\<not> os_path_exists fs (strip item)"
  shows "\<exists>m. find (\<lambda>i. \<not> os_path_exists fs (strip i)) (split source CHR '';'') = Some m
           \<and> create E fs filename source root overwrite =
               (\<lparr>status = ''error'', message = ''File not found: '' @ strip m\<rparr>, fs)
           \<and> ((\<forall>i \<in> set (split source CHR '';''). \<not> os_path_exists fs (strip i) \<longrightarrow> i = item)
                \<longrightarrow> m = item)"
proof -
  let ?P = "\<lambda>i. \<not> os_path_exists fs (strip i)"
  from assms have "find ?P (split source CHR '';'') \<noteq> None"
    by (auto simp: find_None_iff)
  then obtain m where m: "find ?P (split source CHR '';'') = Some m" by blast
  then have mem: "m \<in> set (split source CHR '';'')" and miss: "?P m"
    by (auto simp: find_Some_iff)
  have "create E fs filename source root overwrite =
          (\<lparr>status = ''error'', message = ''File not found: '' @ strip m\<rparr>, fs)"
    by (simp add: create_def Let_def create_check_find m except_create_def)
  with m mem miss show ?thesis by blast
qed

theorem create_missing_source_atomic_witness:
  "create demo_env demo_fs ''/old.zip'' ''/data/a.txt; /nope ;/data/sub/b.txt'' ''/data'' 1 =
     (\<lparr>status = ''error'', message = ''File not found: /nope''\<rparr>, demo_fs)"
proof -
  have sp: "split ''/data/a.txt; /nope ;/data/sub/b.txt'' CHR '';'' =
              [''/data/a.txt'', '' /nope '', ''/data/sub/b.txt'']"
    by simp
  have st: "strip '' /nope '' = ''/nope''" "strip ''/data/a.txt'' = ''/data/a.txt''"
    "strip ''/data/sub/b.txt'' = ''/data/sub/b.txt''"
    by (simp_all add: strip_def isspace_def)
  have ex: "\<not> os_path_exists demo_fs ''/nope''" "os_path_exists demo_fs ''/data/a.txt''"
    "os_path_exists demo_fs ''/data/sub/b.txt''"
    by (simp_all add: os_path_exists_def stat_def demo_fs_def)
  have h1: "'' /nope '' \<in> set (split ''/data/a.txt; /nope ;/data/sub/b.txt'' CHR '';'')"
    by (simp add: sp)
  have h2: "\<not> os_path_exists demo_fs (strip '' /nope '')"
    by (simp add: st ex)
  from create_missing_source_atomic [OF h1 h2, of demo_env "''/old.zip''" "''/data''" 1]
  obtain m where
    f: "find (\<lambda>i. \<not> os_path_exists demo_fs (strip i))
          (split ''/data/a.txt; /nope ;/data/sub/b.txt'' CHR '';'') = Some m"
    and c: "create demo_env demo_fs ''/old.zip'' ''/data/a.txt; /nope ;/data/sub/b.txt'' ''/data'' 1 =
             (\<lparr>status = ''error'', message = ''File not found: '' @ strip m\<rparr>, demo_fs)"
    by blast
  from f have "m = '' /nope ''" by (simp add: sp st ex)
  with c show ?thesis by (simp add: st)
qed

section \<open>Properties of \<^verbatim>\<open>extract\<close>\<close>

lemma getinfo_missing:
  "member \<notin> set (map m_filename ms) \<Longrightarrow>
     getinfo ms member =
       Inl (Exn KeyError None (repr (''There is no item named '' @ repr member @ '' in the archive'')))"
proof -
  assume "member \<notin> set (map m_filename ms)"
  then have "find (\<lambda>m. m_filename m = member) (rev ms) = None"
    by (auto simp: find_None_iff)
  then show ?thesis by (simp add: getinfo_def)
qed

text \<open>
  Claim C9. For an archive that exists and a member name that is not in it,
  \<^verbatim>\<open>extract\<close> returns the status \<^verbatim>\<open>error\<close>, with the text of the \<^verbatim>\<open>KeyError\<close> of the
  library as message, and leaves the file system as it was: nothing is created at the
  destination.
\<close>

theorem extract_missing_member:
  assumes "ZipFile_read fs (strip filename) = Inr ms"
    and "member \<notin> set (map m_filename ms)"
  shows "extract_op E fs filename member path =
           (\<lparr>status = ''error'',
             message = repr (''There is no item named '' @ repr member @ '' in the archive'')\<rparr>,
            fs)"
  using assms(1) getinfo_missing [OF assms(2)]
  by (simp add: extract_op_def zip_extract_def except_read_def)

theorem extract_missing_member_witness:
  "extract_op demo_env demo_fs ''/old.zip'' ''nope'' ''/out'' =
     (\<lparr>status = ''error'',
       message = [CHR 0x22] @ ''There is no item named 'nope' in the archive'' @ [CHR 0x22]\<rparr>,
      demo_fs)"
proof -
  have s: "strip ''/old.zip'' = ''/old.zip''"
    by (simp add: strip_def isspace_def)
  have h1: "ZipFile_read demo_fs (strip ''/old.zip'') =
              Inr [Member ''x.txt'' 1 3 (2020, 2, 2, 2, 2, 2) (Bytes ''x'') False]"
    by (simp add: s ZipFile_read_def stat_def demo_fs_def)
  have h2: "''nope'' \<notin> set (map m_filename [Member ''x.txt'' 1 3 (2020, 2, 2, 2, 2, 2) (Bytes ''x'') False])"
    by simp
  have r: "repr (''There is no item named '' @ repr ''nope'' @ '' in the archive'') =
             [CHR 0x22] @ ''There is no item named 'nope' in the archive'' @ [CHR 0x22]"
    by (simp add: repr_def repr_char_def printable_def Let_def)
  show ?thesis
    using extract_missing_member [OF h1 h2, of demo_env "''/out''"] by (simp only: r)
qed

section \<open>Properties of \<^verbatim>\<open>test\<close>\<close>

lemma find_Some_mem: "find P xs = Some x \<Longrightarrow> x \<in> set xs \<and> P x"
  by (induction xs) (auto split: if_splits)

lemma getinfo_distinct:
  assumes "distinct (map m_filename ms)" and "z \<in> set ms"
  shows "getinfo ms (m_filename z) = Inr z"
proof -
  from assms(2) have "z \<in> set (rev ms)" by simp
  then have ex: "find (\<lambda>m. m_filename m = m_filename z) (rev ms) \<noteq> None"
    by (auto simp: find_None_iff)
  then obtain m where m: "find (\<lambda>m. m_filename m = m_filename z) (rev ms) = Some m" by blast
  from find_Some_mem [OF m] have "m \<in> set ms" and "m_filename m = m_filename z"
    by simp_all
  with assms have "m = z"
    by (metis distinct_map inj_on_def)
  with m show ?thesis by (simp add: getinfo_def)
qed

lemma reads_bad_distinct:
  "distinct (map m_filename ms) \<Longrightarrow> z \<in> set ms \<Longrightarrow> reads_bad ms z = m_bad z"
  by (simp add: reads_bad_def getinfo_distinct)

lemma testzip_distinct:
  "distinct (map m_filename ms) \<Longrightarrow> testzip ms = map_option m_filename (find m_bad ms)"
proof -
  assume d: "distinct (map m_filename ms)"
  have "find (reads_bad ms) ms = find m_bad ms"
    by (rule find_cong) (simp_all add: reads_bad_distinct [OF d])
  then show ?thesis by (simp add: testzip_def)
qed

text \<open>
  What \<^verbatim>\<open>test\<close> does report: in an archive whose member names are distinct, the name
  of the first member that fails its CRC or header check when that name is not empty,
  and a pass when no member fails it.
\<close>

lemma test_reports_first_bad:
  assumes "ZipFile_read fs (strip filename) = Inr ms"
    and "distinct (map m_filename ms)"
    and "find m_bad ms = Some m"
    and "m_filename m \<noteq> []"
  shows "test fs filename = \<lparr>status = ''error'', message = m_filename m\<rparr>"
  using assms by (simp add: test_def testzip_distinct truthy_def str_opt_def)

lemma test_passes_sound_archive:
  assumes "ZipFile_read fs (strip filename) = Inr ms"
    and "list_all (\<lambda>m. \<not> m_bad m) ms"
  shows "test fs filename = \<lparr>status = ''ok'', message = ''Test passed for '' @ strip filename\<rparr>"
proof -
  have "find (reads_bad ms) ms = None"
  proof -
    have "\<not> reads_bad ms z" for z
    proof (cases "getinfo ms (m_filename z)")
      case (Inl e)
      then show ?thesis by (simp add: reads_bad_def)
    next
      case (Inr m)
      then have "find (\<lambda>x. m_filename x = m_filename z) (rev ms) = Some m"
        by (simp add: getinfo_def split: option.splits)
      from find_Some_mem [OF this] have "m \<in> set ms" by simp
      with assms(2) have "\<not> m_bad m" by (simp add: list_all_iff)
      with Inr show ?thesis by (simp add: reads_bad_def)
    qed
    then show ?thesis by (simp add: find_None_iff)
  qed
  with assms(1) show ?thesis by (simp add: test_def testzip_def truthy_def)
qed

text \<open>
  Claim C6, on an archive whose first member has the empty name and fails its check
  (and whose second member fails it too): \<^verbatim>\<open>testzip\<close> returns the empty name, which
  \<^verbatim>\<open>if (badfile)\<close> takes for \<open>False\<close>, and \<^verbatim>\<open>test\<close> reports a pass.
\<close>

theorem test_passes_bad_member_without_name:
  "ZipFile_read demo_fs ''/bad.zip'' =
     Inr [Member [] 3 3 (2024, 1, 5, 3, 4, 6) (Bytes ''abc'') True,
          Member ''b.txt'' 3 3 (2024, 1, 5, 3, 4, 6) (Bytes ''xyz'') True]
   \<and> testzip [Member [] 3 3 (2024, 1, 5, 3, 4, 6) (Bytes ''abc'') True,
               Member ''b.txt'' 3 3 (2024, 1, 5, 3, 4, 6) (Bytes ''xyz'') True] = Some []
   \<and> test demo_fs ''/bad.zip'' = \<lparr>status = ''ok'', message = ''Test passed for /bad.zip''\<rparr>"
proof -
  have s: "strip ''/bad.zip'' = ''/bad.zip''"
    by (simp add: strip_def isspace_def)
  have r: "ZipFile_read demo_fs ''/bad.zip'' =
     Inr [Member [] 3 3 (2024, 1, 5, 3, 4, 6) (Bytes ''abc'') True,
          Member ''b.txt'' 3 3 (2024, 1, 5, 3, 4, 6) (Bytes ''xyz'') True]"
    by (simp add: ZipFile_read_def stat_def demo_fs_def)
  have t: "testzip [Member [] 3 3 (2024, 1, 5, 3, 4, 6) (Bytes ''abc'') True,
               Member ''b.txt'' 3 3 (2024, 1, 5, 3, 4, 6) (Bytes ''xyz'') True] = Some []"
    by (simp add: testzip_def reads_bad_def getinfo_def)
  from r t show ?thesis by (simp add: test_def s truthy_def)
qed

section \<open>Opening an archive for writing\<close>



lemma ZipFile_write_Inr:
  "ZipFile_write E fs filename mode = Inr fs1 \<Longrightarrow>
     filename \<noteq> [] \<and> fs1 = fs(filename \<mapsto> File (Bytes []) (clock E))
     \<and> (\<forall>es t. stat fs filename \<noteq> Some (Dir es t))"
  by (auto simp: ZipFile_write_def stat_def split: option.splits node.splits if_splits)

lemma stat_upd:
  "filename \<noteq> [] \<Longrightarrow> stat (fs(filename \<mapsto> n)) p = (if p = filename then Some n else stat fs p)"
  by (simp add: stat_def)

text \<open>Truncating a file that is not a directory changes no other path and no kind of object.\<close>

lemma isfile_upd:
  assumes "filename \<noteq> []" and "\<forall>es t. stat fs filename \<noteq> Some (Dir es t)"
    and "os_path_exists fs p"
  shows "os_path_isfile (fs(filename \<mapsto> File c t)) p = os_path_isfile fs p"
  using assms
  by (auto simp: os_path_isfile_def os_path_exists_def stat_upd split: option.splits node.splits)







section \<open>The archive that \<^verbatim>\<open>create\<close> writes\<close>

lemma create_ok_members:
  assumes "status (fst (create E fs filename source root overwrite)) = ''ok''"
  shows "\<exists>fs1 ms.
           ZipFile_write E fs (strip filename) (open_mode overwrite) = Inr fs1
         \<and> create_check fs (split source CHR '';'') = Inr ()
         \<and> create E fs filename source root overwrite =
             (\<lparr>status = ''ok'',
               message = digits (length (filter snd (all_writes fs1 (split source CHR '';''))))
                           @ '' files written to archive '' @ strip filename\<rparr>,
              ZipFile_close E fs1 (strip filename) ms)
         \<and> map (\<lambda>w. zip_write E fs1 (fst w) (replace (fst w) root []))
               (all_writes fs1 (split source CHR '';'')) = map Inr ms"
proof -
  from create_ok_cases [OF assms] obtain fs1 ms c where
    ck: "create_check fs (split source CHR '';'') = Inr ()"
    and w: "ZipFile_write E fs (strip filename) (open_mode overwrite) = Inr fs1"
    and r: "run_writes E fs1 root (all_writes fs1 (split source CHR '';'')) ([], 0) = (None, (ms, c))"
    by blast
  from run_writes_None [OF r] have
    eq: "map (\<lambda>w. zip_write E fs1 (fst w) (replace (fst w) root []))
           (all_writes fs1 (split source CHR '';'')) = map Inr ms"
    and c: "c = length (filter snd (all_writes fs1 (split source CHR '';'')))"
    by auto
  have "create E fs filename source root overwrite =
             (\<lparr>status = ''ok'',
               message = digits (length (filter snd (all_writes fs1 (split source CHR '';''))))
                           @ '' files written to archive '' @ strip filename\<rparr>,
              ZipFile_close E fs1 (strip filename) ms)"
    using create_opened [OF ck w r] by (simp only: c)
  with w ck eq show ?thesis by blast
qed

lemma all_writes_files:
  "list_all (\<lambda>item. os_path_isfile fs (strip item)) list_source \<Longrightarrow>
     all_writes fs list_source = map (\<lambda>item. (strip item, True)) list_source"
  by (induction list_source) (simp_all add: Let_def)

lemma isfile_exists: "os_path_isfile fs p \<Longrightarrow> os_path_exists fs p"
  by (auto simp: os_path_isfile_def os_path_exists_def split: option.splits)

lemma zip_write_file_name:
  "os_path_isfile fs p \<Longrightarrow> zip_write E fs p arcname = Inr m \<Longrightarrow>
     zip_arcname arcname = Inr (m_filename m)"
  by (auto simp: os_path_isfile_def zip_write_def split: option.splits node.splits sum.splits)

lemma map_Inr_names:
  assumes "map f xs = map Inr ms"
    and "\<And>x m. x \<in> set xs \<Longrightarrow> f x = Inr m \<Longrightarrow> g x = Inr (h m)"
  shows "map g xs = map (\<lambda>m. Inr (h m)) ms"
  using assms
proof (induction xs arbitrary: ms)
  case Nil
  then show ?case by simp
next
  case (Cons x xs)
  from Cons.prems(1) obtain m ms' where ms: "ms = m # ms'" and fx: "f x = Inr m"
    and rest: "map f xs = map Inr ms'"
    by (cases ms) auto
  from Cons.prems(2) [of x m] fx have gx: "g x = Inr (h m)" by simp
  have "map g xs = map (\<lambda>m. Inr (h m)) ms'"
    by (rule Cons.IH [OF rest]) (simp add: Cons.prems(2))
  with gx ms show ?case by simp
qed

text \<open>The names in an archive made of regular files only.\<close>

lemma create_files_names:
  assumes ok: "status (fst (create E fs filename source root overwrite)) = ''ok''"
    and files: "list_all (\<lambda>item. os_path_isfile fs (strip item)) (split source CHR '';'')"
  shows "\<exists>ms. strip filename \<noteq> []
         \<and> snd (create E fs filename source root overwrite) (strip filename) =
             Some (File (Zip ms) (clock E))
         \<and> message (fst (create E fs filename source root overwrite)) =
             digits (length (split source CHR '';'')) @ '' files written to archive '' @ strip filename
         \<and> map (\<lambda>m. Inr (m_filename m)) ms =
             map (\<lambda>item. zip_arcname (replace (strip item) root [])) (split source CHR '';'')"
proof -
  let ?items = "split source CHR '';''"
  let ?f = "strip filename"
  from create_ok_members [OF ok] obtain fs1 ms where
    w: "ZipFile_write E fs ?f (open_mode overwrite) = Inr fs1"
    and cr: "create E fs filename source root overwrite =
             (\<lparr>status = ''ok'',
               message = digits (length (filter snd (all_writes fs1 ?items)))
                           @ '' files written to archive '' @ ?f\<rparr>,
              ZipFile_close E fs1 ?f ms)"
    and eq: "map (\<lambda>w. zip_write E fs1 (fst w) (replace (fst w) root [])) (all_writes fs1 ?items)
               = map Inr ms"
    by blast
  from ZipFile_write_Inr [OF w] have
    ne: "?f \<noteq> []"
    and fs1: "fs1 = fs(?f \<mapsto> File (Bytes []) (clock E))"
    and nd: "\<forall>es t. stat fs ?f \<noteq> Some (Dir es t)"
    by simp_all
  have files1: "os_path_isfile fs1 (strip item)" if "item \<in> set ?items" for item
  proof -
    from files that have i: "os_path_isfile fs (strip item)" by (simp add: list_all_iff)
    show ?thesis
      unfolding fs1 using isfile_upd [OF ne nd isfile_exists [OF i]] i by simp
  qed
  then have "list_all (\<lambda>item. os_path_isfile fs1 (strip item)) ?items"
    by (simp add: list_all_iff)
  then have aw: "all_writes fs1 ?items = map (\<lambda>item. (strip item, True)) ?items"
    by (rule all_writes_files)
  have eq': "map (\<lambda>item. zip_write E fs1 (strip item) (replace (strip item) root [])) ?items
               = map Inr ms"
    using eq by (simp add: aw o_def)
  have names: "map (\<lambda>item. zip_arcname (replace (strip item) root [])) ?items
                 = map (\<lambda>m. Inr (m_filename m)) ms"
    by (rule map_Inr_names [OF eq']) (rule zip_write_file_name [OF files1])
  have cnt: "length (filter snd (all_writes fs1 ?items)) = length ?items"
    by (simp add: aw o_def)
  have st: "snd (create E fs filename source root overwrite) ?f = Some (File (Zip ms) (clock E))"
    by (simp add: cr ZipFile_close_def)
  have msg: "message (fst (create E fs filename source root overwrite)) =
               digits (length ?items) @ '' files written to archive '' @ ?f"
    by (simp add: cr cnt)
  from ne st msg names show ?thesis by metis
qed






section \<open>Listing an archive that \<^verbatim>\<open>create\<close> has written\<close>

lemma replace_prefix:
  assumes "take (length root) p = root"
  shows "replace p root [] = replace (drop (length root) p) root []"
proof (cases "root = []")
  case True
  then show ?thesis by simp
next
  case False
  with assms obtain c cs where p: "p = c # cs" by (cases p) auto
  from assms False show ?thesis unfolding p by (simp del: take_Suc_Cons drop_Suc_Cons)
qed

lemma normpath_nonempty: "normpath p \<noteq> []"
  by (simp add: normpath_def Let_def)

lemma zip_arcname_normal:
  assumes "normpath rest = rest" and "take 1 rest \<noteq> ''/''"
  shows "zip_arcname rest = Inr rest"
proof -
  from assms(1) normpath_nonempty [of rest] obtain c cs where r: "rest = c # cs"
    by (cases rest) auto
  with assms(2) have "c \<noteq> CHR ''/''" by simp
  then have "strip_seps rest = Inr rest" by (simp add: r)
  with assms(1) show ?thesis by (simp add: zip_arcname_def)
qed

lemma list_of_archive:
  assumes "filename \<noteq> []" and "fs filename = Some (File (Zip ms) t)"
  shows "list_try fs filename = Inr (list_loop ms [])"
  using assms by (simp add: list_try_def ZipFile_read_def stat_def)

lemma list_ok:
  "list_try fs (strip filename) = Inr infoarray \<Longrightarrow>
     list fs filename =
       \<lparr>status = ''ok'', message = strip filename, zipinfo = json_dumps infoarray\<rparr>"
  by (simp add: list_def)

text \<open>
  Claim C1, as amended. An archive that \<^verbatim>\<open>create\<close> has produced from sources that
  are all regular files, each path (stripped) being \<open>root\<close> followed by a rest in which
  \<open>root\<close> does not occur again: \<^verbatim>\<open>list\<close> returns \<^verbatim>\<open>ok\<close> and exactly one entry for each
  source, in the order of the sources, and the name of the entry is the archive name
  the library makes of the rest (\<^verbatim>\<open>normpath\<close>, leading separators dropped). The name is
  the rest itself when the rest is a normal path that does not start with a
  separator.
\<close>

theorem list_after_create_of_files:
  assumes ok: "status (fst (create E fs filename source root overwrite)) = ''ok''"
    and src: "list_all (\<lambda>item. os_path_isfile fs (strip item)
                 \<and> take (length root) (strip item) = root
                 \<and> replace (drop (length root) (strip item)) root [] = drop (length root) (strip item))
               (split source CHR '';'')"
  shows "\<exists>infoarray.
           list_try (snd (create E fs filename source root overwrite)) (strip filename) = Inr infoarray
         \<and> list (snd (create E fs filename source root overwrite)) filename =
             \<lparr>status = ''ok'', message = strip filename, zipinfo = json_dumps infoarray\<rparr>
         \<and> length infoarray = length (split source CHR '';'')
         \<and> map (\<lambda>x. Inr (d_filename x)) infoarray =
             map (\<lambda>item. zip_arcname (drop (length root) (strip item))) (split source CHR '';'')
         \<and> (\<forall>i < length infoarray.
               normpath (drop (length root) (strip (split source CHR '';'' ! i)))
                 = drop (length root) (strip (split source CHR '';'' ! i))
               \<and> take 1 (drop (length root) (strip (split source CHR '';'' ! i))) \<noteq> ''/''
               \<longrightarrow> d_filename (infoarray ! i) = drop (length root) (strip (split source CHR '';'' ! i)))"
proof -
  let ?items = "split source CHR '';''"
  let ?fs' = "snd (create E fs filename source root overwrite)"
  let ?rest = "\<lambda>item. drop (length root) (strip item)"
  from src have files: "list_all (\<lambda>item. os_path_isfile fs (strip item)) ?items"
    by (simp add: list_all_iff)
  from create_files_names [OF ok files] obtain ms where
    ne: "strip filename \<noteq> []"
    and ar: "?fs' (strip filename) = Some (File (Zip ms) (clock E))"
    and nm: "map (\<lambda>m. Inr (m_filename m)) ms =
               map (\<lambda>item. zip_arcname (replace (strip item) root [])) ?items"
    by blast
  let ?infoarray = "list_loop ms []"
  have lt: "list_try ?fs' (strip filename) = Inr ?infoarray"
    using ne ar by (rule list_of_archive [where fs = "?fs'"])
  have rp: "replace (strip item) root [] = ?rest item" if "item \<in> set ?items" for item
  proof -
    from src that have p: "take (length root) (strip item) = root"
      and r: "replace (?rest item) root [] = ?rest item"
      by (simp_all add: list_all_iff)
    from replace_prefix [OF p] r show ?thesis by simp
  qed
  have "map (\<lambda>item. zip_arcname (replace (strip item) root [])) ?items =
          map (\<lambda>item. zip_arcname (?rest item)) ?items"
    by (rule map_cong) (simp_all add: rp)
  with nm have nm': "map (\<lambda>m. Inr (m_filename m)) ms = map (\<lambda>item. zip_arcname (?rest item)) ?items"
    by simp
  have names: "map (\<lambda>x. Inr (d_filename x)) ?infoarray = map (\<lambda>item. zip_arcname (?rest item)) ?items"
    using nm' by (simp add: list_loop_append o_def)
  have len: "length ?infoarray = length ?items"
    using arg_cong [OF names, of length] by (simp only: length_map)
  have same: "d_filename (?infoarray ! i) = ?rest (?items ! i)"
    if i: "i < length ?infoarray"
      and n: "normpath (?rest (?items ! i)) = ?rest (?items ! i)"
      and s: "take 1 (?rest (?items ! i)) \<noteq> ''/''" for i
  proof -
    from i len have i': "i < length ?items" by simp
    from arg_cong [OF names, of "\<lambda>xs. xs ! i"] i i'
    have "Inr (d_filename (?infoarray ! i)) = zip_arcname (?rest (?items ! i))"
      by simp
    with zip_arcname_normal [OF n s] show ?thesis by simp
  qed
  show ?thesis
  proof (intro exI conjI allI impI)
    show "list_try ?fs' (strip filename) = Inr ?infoarray" by (rule lt)
    show "list ?fs' filename =
            \<lparr>status = ''ok'', message = strip filename, zipinfo = json_dumps ?infoarray\<rparr>"
      by (rule list_ok [OF lt])
    show "length ?infoarray = length ?items" by (rule len)
    show "map (\<lambda>x. Inr (d_filename x)) ?infoarray = map (\<lambda>item. zip_arcname (?rest item)) ?items"
      by (rule names)
  next
    fix i
    assume "i < length ?infoarray"
      and "normpath (?rest (?items ! i)) = ?rest (?items ! i) \<and> take 1 (?rest (?items ! i)) \<noteq> ''/''"
    then show "d_filename (?infoarray ! i) = ?rest (?items ! i)"
      using same [of i] by simp
  qed
qed

theorem list_after_create_of_files_witness:
  "status (fst (create demo_env demo_fs ''/out.zip'' ''/data/a.txt; /data/sub/b.txt '' ''/data/'' 1)) = ''ok''
   \<and> list_all (\<lambda>item. os_path_isfile demo_fs (strip item)
          \<and> take (length ''/data/'') (strip item) = ''/data/''
          \<and> replace (drop (length ''/data/'') (strip item)) ''/data/'' [] = drop (length ''/data/'') (strip item))
        (split ''/data/a.txt; /data/sub/b.txt '' CHR '';'')
   \<and> status (list (snd (create demo_env demo_fs ''/out.zip'' ''/data/a.txt; /data/sub/b.txt '' ''/data/'' 1))
         ''/out.zip'') = ''ok''
   \<and> (case list_try (snd (create demo_env demo_fs ''/out.zip'' ''/data/a.txt; /data/sub/b.txt '' ''/data/'' 1))
              ''/out.zip'' of
         Inl err \<Rightarrow> []
       | Inr infoarray \<Rightarrow> map d_filename infoarray) = [''a.txt'', ''sub/b.txt'']"
proof -
  let ?S = "''/data/a.txt; /data/sub/b.txt ''"
  let ?fs' = "snd (create demo_env demo_fs ''/out.zip'' ?S ''/data/'' 1)"
  have ok: "status (fst (create demo_env demo_fs ''/out.zip'' ?S ''/data/'' 1)) = ''ok''"
    by code_simp
  have src: "list_all (\<lambda>item. os_path_isfile demo_fs (strip item)
          \<and> take (length ''/data/'') (strip item) = ''/data/''
          \<and> replace (drop (length ''/data/'') (strip item)) ''/data/'' [] = drop (length ''/data/'') (strip item))
        (split ?S CHR '';'')"
    by code_simp
  have s: "strip ''/out.zip'' = ''/out.zip''"
    by code_simp
  have rhs: "map (\<lambda>item. zip_arcname (drop (length ''/data/'') (strip item))) (split ?S CHR '';'') =
               [Inr ''a.txt'', Inr ''sub/b.txt'']"
    by code_simp
  from list_after_create_of_files [OF ok src] obtain infoarray where
    lt: "list_try ?fs' (strip ''/out.zip'') = Inr infoarray"
    and l: "list ?fs' ''/out.zip'' =
              \<lparr>status = ''ok'', message = strip ''/out.zip'', zipinfo = json_dumps infoarray\<rparr>"
    and nm: "map (\<lambda>x. Inr (d_filename x) :: exn + string) infoarray =
               map (\<lambda>item. zip_arcname (drop (length ''/data/'') (strip item))) (split ?S CHR '';'')"
    by blast
  from nm have "map (\<lambda>x. Inr (d_filename x) :: exn + string) infoarray = [Inr ''a.txt'', Inr ''sub/b.txt'']"
    by (simp only: rhs)
  then have names: "map d_filename infoarray = [''a.txt'', ''sub/b.txt'']"
    by (auto simp: map_eq_Cons_conv)
  from lt have lt': "list_try ?fs' ''/out.zip'' = Inr infoarray"
    by (simp only: s)
  have c: "(case list_try ?fs' ''/out.zip'' of Inl err \<Rightarrow> [] | Inr infoarray \<Rightarrow> map d_filename infoarray)
             = [''a.txt'', ''sub/b.txt'']"
    by (simp only: lt' sum.case names)
  from l have st: "status (list ?fs' ''/out.zip'') = ''ok''"
    by simp
  from ok src st c show ?thesis by (simp only: simp_thms)
qed

text \<open>
  Claim C1 as it is stated fails for the source \<^verbatim>\<open>/d/x/d/a.txt\<close> with the root \<^verbatim>\<open>/d\<close>:
  the archive is produced, the source is a regular file that starts with the root,
  and the entry that \<^verbatim>\<open>list\<close> returns is named \<^verbatim>\<open>x/a.txt\<close>, not \<^verbatim>\<open>/x/d/a.txt\<close>, the
  path without its prefix: \<^verbatim>\<open>str.replace\<close> removes the second \<^verbatim>\<open>/d\<close> too, and the
  library drops the separator in front.
\<close>

theorem list_after_create_counterexample:
  "status (fst (create demo_env demo_fs ''/out.zip'' ''/d/x/d/a.txt'' ''/d'' 1)) = ''ok''
   \<and> os_path_isfile demo_fs ''/d/x/d/a.txt''
   \<and> take (length ''/d'') ''/d/x/d/a.txt'' = ''/d''
   \<and> drop (length ''/d'') ''/d/x/d/a.txt'' = ''/x/d/a.txt''
   \<and> list_try (snd (create demo_env demo_fs ''/out.zip'' ''/d/x/d/a.txt'' ''/d'' 1)) ''/out.zip'' =
       Inr [\<lparr>d_filename = ''x/a.txt'', d_filesize = 4, d_compress_size = 7,
             d_modified = ''2023-12-1 10:0:8''\<rparr>]
   \<and> ''x/a.txt'' \<noteq> ''/x/d/a.txt''"
  by code_simp

section \<open>The \<^verbatim>\<open>overwrite\<close> argument\<close>







end
